theory Spec2Isabelle
  imports Complex_Main
begin

section \<open>JavaScript values used by google.js\<close>

text \<open>
  A JavaScript Number is \<open>NaN\<close>, one of the two infinities, or a finite double. A finite
  double is represented by the rational it denotes; nothing below depends on rounding, and
  the two zeros are identified (the code only subtracts numbers, tests the sign of the
  difference and truncates a number to an integer).
\<close>

datatype jsnum = NaN | NegInf | Fin rat | PosInf

text \<open>
  The values stored in a flattened row: \<open>null\<close>, a string or a number. A flattened row is
  a plain object, modelled as a map from property names to values; a property that is
  not there reads as \<open>undefined\<close>, which is \<open>None\<close>. The map holds the object's
  own properties.
\<close>

datatype jsval = JNull | JStr string | JNum jsnum

type_synonym FlatRow = "string \<rightharpoonup> jsval"

text \<open>
  \<open>Number(v)\<close> on the values above. The conversion of a string to a number is the
  language's \<open>StringToNumber\<close>; it is not code of this program and is taken as the
  parameter \<open>s2n\<close> everywhere.
\<close>

fun Number :: "(string \<Rightarrow> jsnum) \<Rightarrow> jsval option \<Rightarrow> jsnum" where
  "Number s2n None = NaN"
| "Number s2n (Some JNull) = Fin 0"
| "Number s2n (Some (JStr s)) = s2n s"
| "Number s2n (Some (JNum n)) = n"

subsection \<open>A concrete string conversion\<close>

text \<open>
  For evaluations at concrete inputs the conversion is instantiated with
  \<open>StringToNumber\<close> below, which follows the grammar of ECMA-262 (StringToNumber:
  white space is trimmed, the empty string is 0, then a signed decimal literal with
  optional fraction and exponent, \<open>Infinity\<close>, or an unsigned binary, octal or
  hexadecimal integer; anything else is \<open>NaN\<close>). It yields the mathematical value of the
  literal, without the final rounding to a double: a literal beyond the range of the
  doubles is not turned into an infinity, nor one below it into zero. It is applied below
  only to literals whose value a double holds exactly. Characters are the code units
  below 256. No general theorem below depends on it.
\<close>

definition isStrWhiteSpaceChar :: "char \<Rightarrow> bool" where
  "isStrWhiteSpaceChar c = (of_char c \<in> set [9, 10, 11, 12, 13, 32, 160 :: nat])"

definition trimString :: "string \<Rightarrow> string" where
  "trimString s = rev (dropWhile isStrWhiteSpaceChar (rev (dropWhile isStrWhiteSpaceChar s)))"

definition digitIn :: "nat \<Rightarrow> char \<Rightarrow> nat option" where
  "digitIn radix c =
     (let n = of_char c :: nat;
          v = (if 48 \<le> n \<and> n \<le> 57 then Some (n - 48)
               else if 97 \<le> n \<and> n \<le> 102 then Some (n - 87)
               else if 65 \<le> n \<and> n \<le> 70 then Some (n - 55)
               else None)
      in case v of None \<Rightarrow> None | Some d \<Rightarrow> if d < radix then Some d else None)"

fun radixDigits :: "nat \<Rightarrow> string \<Rightarrow> nat \<Rightarrow> nat option" where
  "radixDigits radix [] acc = Some acc"
| "radixDigits radix (c # cs) acc =
     (case digitIn radix c of
        None \<Rightarrow> None
      | Some d \<Rightarrow> radixDigits radix cs (radix * acc + d))"

definition integerLiteral :: "nat \<Rightarrow> string \<Rightarrow> nat option" where
  "integerLiteral radix s = (if s = [] then None else radixDigits radix s 0)"

definition isDecimalDigit :: "char \<Rightarrow> bool" where
  "isDecimalDigit c = (digitIn 10 c \<noteq> None)"

definition exponentPart :: "string \<Rightarrow> int option" where
  "exponentPart s =
     (case s of
        [] \<Rightarrow> Some 0
      | c # t \<Rightarrow>
          if c = CHR ''e'' \<or> c = CHR ''E'' then
            (case t of
               [] \<Rightarrow> None
             | d # u \<Rightarrow>
                 if d = CHR ''+'' then map_option int (integerLiteral 10 u)
                 else if d = CHR ''-'' then map_option (\<lambda>n. - int n) (integerLiteral 10 u)
                 else map_option int (integerLiteral 10 t))
          else None)"

definition scale10 :: "rat \<Rightarrow> int \<Rightarrow> rat" where
  "scale10 m e = (if 0 \<le> e then m * 10 ^ nat e else m / 10 ^ nat (- e))"

definition StrUnsignedDecimalLiteral :: "string \<Rightarrow> jsnum" where
  "StrUnsignedDecimalLiteral s =
     (if s = ''Infinity'' then PosInf
      else
        let ip = takeWhile isDecimalDigit s;
            r1 = dropWhile isDecimalDigit s;
            fp = (case r1 of [] \<Rightarrow> [] | c # t \<Rightarrow>
                    if c = CHR ''.'' then takeWhile isDecimalDigit t else []);
            r2 = (case r1 of [] \<Rightarrow> [] | c # t \<Rightarrow>
                    if c = CHR ''.'' then dropWhile isDecimalDigit t else r1)
        in if ip = [] \<and> fp = [] then NaN
           else
             (case exponentPart r2 of
                None \<Rightarrow> NaN
              | Some e \<Rightarrow>
                  Fin (scale10
                    (of_nat (the (radixDigits 10 ip 0))
                      + of_nat (the (radixDigits 10 fp 0)) / 10 ^ length fp) e)))"

definition negate :: "jsnum \<Rightarrow> jsnum" where
  "negate x = (case x of NaN \<Rightarrow> NaN | NegInf \<Rightarrow> PosInf | Fin q \<Rightarrow> Fin (- q) | PosInf \<Rightarrow> NegInf)"

definition nonDecimalRadix :: "string \<Rightarrow> nat option" where
  "nonDecimalRadix s =
     (case s of
        c # d # t \<Rightarrow>
          if c = CHR ''0'' \<and> (d = CHR ''x'' \<or> d = CHR ''X'') then Some 16
          else if c = CHR ''0'' \<and> (d = CHR ''o'' \<or> d = CHR ''O'') then Some 8
          else if c = CHR ''0'' \<and> (d = CHR ''b'' \<or> d = CHR ''B'') then Some 2
          else None
      | _ \<Rightarrow> None)"

definition StringToNumber :: "string \<Rightarrow> jsnum" where
  "StringToNumber s =
     (let t = trimString s in
      if t = [] then Fin 0
      else
        (case nonDecimalRadix t of
           Some radix \<Rightarrow>
             (case integerLiteral radix (drop 2 t) of
                None \<Rightarrow> NaN
              | Some n \<Rightarrow> Fin (of_nat n))
         | None \<Rightarrow>
             if hd t = CHR ''+'' then StrUnsignedDecimalLiteral (tl t)
             else if hd t = CHR ''-'' then negate (StrUnsignedDecimalLiteral (tl t))
             else StrUnsignedDecimalLiteral t))"

section \<open>Errors\<close>

text \<open>A thrown error or the reason of a rejected call, with its \<open>message\<close>.\<close>

datatype failure = Failure (message: string)

section \<open>The upstream report result\<close>

text \<open>
  The report client returns parallel header arrays and rows of value cells. A cell's
  \<open>value\<close> is a string in the client's declarations; every level that the code reads
  with \<open>?.\<close> may be missing (\<open>None\<close>).
\<close>

datatype Header = Header (name: string)

datatype ValueCell = ValueCell (cell_value: "string option")

record Row =
  dimensionValues :: "ValueCell option list option"
  metricValues :: "ValueCell option list option"

text \<open>\<open>xs?.[i]\<close>: \<open>undefined\<close> when the array is missing or the index is out of range.\<close>

definition opt_index :: "'a option list option \<Rightarrow> nat \<Rightarrow> 'a option" where
  "opt_index xs i =
     (case xs of None \<Rightarrow> None
      | Some ys \<Rightarrow> if i < length ys then ys ! i else None)"

text \<open>\<open>c?.value\<close>\<close>

definition opt_value :: "ValueCell option \<Rightarrow> string option" where
  "opt_value c = (case c of None \<Rightarrow> None | Some d \<Rightarrow> cell_value d)"

text \<open>\<open>row.dimensionValues?.[i]?.value ?? null\<close>\<close>

definition dimValue :: "Row \<Rightarrow> nat \<Rightarrow> jsval" where
  "dimValue row i =
     (case opt_value (opt_index (dimensionValues row) i) of
        None \<Rightarrow> JNull
      | Some s \<Rightarrow> JStr s)"

text \<open>\<open>Number(row.metricValues?.[i]?.value ?? 0)\<close>\<close>

definition metValue :: "(string \<Rightarrow> jsnum) \<Rightarrow> Row \<Rightarrow> nat \<Rightarrow> jsval" where
  "metValue s2n row i =
     JNum (Number s2n (Some (case opt_value (opt_index (metricValues row) i) of
        None \<Rightarrow> JNum (Fin 0)
      | Some s \<Rightarrow> JStr s)))"

section \<open>rowsToObjects\<close>

text \<open>
  The object that \<open>rowsToObjects\<close> builds for a row: its own properties, and whether
  its prototype is still \<open>Object.prototype\<close>, as it is for \<open>{}\<close>.
\<close>

record JSObject =
  props :: FlatRow
  objectPrototype :: bool

definition emptyObject :: JSObject where
  "emptyObject = \<lparr>props = Map.empty, objectPrototype = True\<rparr>"

text \<open>
  \<open>obj[key] = v\<close> for a value \<open>v\<close> that is null, a string or a number. An own property
  is overwritten. Otherwise the name \<open>__proto__\<close> is found on \<open>Object.prototype\<close> as an
  accessor, whose setter makes null the prototype of \<open>obj\<close> and ignores a string or a
  number; no property is created. Every other name, and \<open>__proto__\<close> too once the
  prototype is null, becomes an own property.
\<close>

definition assign :: "JSObject \<Rightarrow> string \<Rightarrow> jsval \<Rightarrow> JSObject" where
  "assign obj key v =
     (if props obj key = None \<and> key = ''__proto__'' \<and> objectPrototype obj
      then (if v = JNull then obj\<lparr>objectPrototype := False\<rparr> else obj)
      else obj\<lparr>props := (props obj)(key \<mapsto> v)\<rparr>)"

text \<open>
  \<open>headers.forEach((h, i) => (obj[h.name] = f(i)))\<close>: the headers are visited in
  order with their index, each visit making one assignment to \<open>obj\<close>.
\<close>

fun assignEach :: "(nat \<Rightarrow> jsval) \<Rightarrow> nat \<Rightarrow> Header list \<Rightarrow> JSObject \<Rightarrow> JSObject" where
  "assignEach f i [] obj = obj"
| "assignEach f i (h # hs) obj = assignEach f (Suc i) hs (assign obj (name h) (f i))"

text \<open>
  The callback of \<open>rows.map\<close>: dimensions first, then metrics, into one object. The
  result is given by its own properties: they are what the response holds, and the routes
  read from a record only names that \<open>Object.prototype\<close> does not have.
\<close>

definition rowToObject ::
  "(string \<Rightarrow> jsnum) \<Rightarrow> Header list \<Rightarrow> Header list \<Rightarrow> Row \<Rightarrow> FlatRow" where
  "rowToObject s2n dimensionHeaders metricHeaders row =
     (let obj = emptyObject;
          obj = assignEach (dimValue row) 0 dimensionHeaders obj;
          obj = assignEach (metValue s2n row) 0 metricHeaders obj
      in props obj)"

text \<open>
  A parameter with the default \<open>[]\<close>: the default stands in for \<open>undefined\<close>. (The
  report client's arrays are never \<open>null\<close>, for which \<open>rows.map\<close> would throw.)
\<close>

definition orEmpty :: "'a list option \<Rightarrow> 'a list" where
  "orEmpty xs = (case xs of None \<Rightarrow> [] | Some ys \<Rightarrow> ys)"

definition rowsToObjects ::
  "(string \<Rightarrow> jsnum) \<Rightarrow> Row list option \<Rightarrow> Header list option \<Rightarrow> Header list option
     \<Rightarrow> FlatRow list" where
  "rowsToObjects s2n rows dimensionHeaders metricHeaders =
     map (rowToObject s2n (orEmpty dimensionHeaders) (orEmpty metricHeaders)) (orEmpty rows)"

section \<open>The response of the report client\<close>

text \<open>
  The response of the report client, as \<open>runReport\<close> reads it. The entries of
  \<open>samplingMetadatas\<close> are objects that are passed on untouched.
\<close>

type_synonym SamplingMetadata = "string \<rightharpoonup> jsval"

record ResponseMetaData =
  samplesReadCount :: "jsval option"
  samplingMetadatas :: "SamplingMetadata list option"

record RunReportResponse =
  rows :: "Row list option"
  dimensionHeaders :: "Header list option"
  metricHeaders :: "Header list option"
  rowCount :: "jsval option"
  metadata :: "ResponseMetaData option"

section \<open>Dates\<close>

text \<open>
  The \<open>Date\<close> operations that \<open>toISO\<close> and \<open>defaultRange\<close> call, after ECMA-262
  (Date objects, time values and time range). A time value is an integer number of
  milliseconds since the epoch in UTC; an invalid date is \<open>None\<close>.
\<close>

definition msPerDay :: int where
  "msPerDay = 86400000"

definition Day :: "int \<Rightarrow> int" where
  "Day t = t div msPerDay"

definition TimeWithinDay :: "int \<Rightarrow> int" where
  "TimeWithinDay t = t mod msPerDay"

definition DaysInYear :: "int \<Rightarrow> int" where
  "DaysInYear y =
     (if y mod 4 \<noteq> 0 then 365
      else if y mod 100 \<noteq> 0 then 366
      else if y mod 400 \<noteq> 0 then 365
      else 366)"

definition DayFromYear :: "int \<Rightarrow> int" where
  "DayFromYear y =
     365 * (y - 1970) + (y - 1969) div 4 - (y - 1901) div 100 + (y - 1601) div 400"

text \<open>
  The year of a day number: the largest \<open>y\<close> with \<open>DayFromYear y \<le> d\<close>. It is computed
  from the mean length of a year and adjusted by at most one year
  (lemma \<open>YearFromDay_bounds\<close> below shows that this is that year).
\<close>

definition YearFromDay :: "int \<Rightarrow> int" where
  "YearFromDay d =
     (let y = 1970 + (400 * d) div 146097
      in if d < DayFromYear y then y - 1
         else if DayFromYear (y + 1) \<le> d then y + 1
         else y)"

definition YearFromTime :: "int \<Rightarrow> int" where
  "YearFromTime t = YearFromDay (Day t)"

definition InLeapYear :: "int \<Rightarrow> int" where
  "InLeapYear t = (if DaysInYear (YearFromTime t) = 366 then 1 else 0)"

definition DayWithinYear :: "int \<Rightarrow> int" where
  "DayWithinYear t = Day t - DayFromYear (YearFromTime t)"

text \<open>The number of days of the year before month \<open>m\<close> (0 is January).\<close>

definition monthStart :: "int \<Rightarrow> int \<Rightarrow> int" where
  "monthStart leap m =
     (if m = 0 then 0 else if m = 1 then 31 else if m = 2 then 59 + leap
      else if m = 3 then 90 + leap else if m = 4 then 120 + leap
      else if m = 5 then 151 + leap else if m = 6 then 181 + leap
      else if m = 7 then 212 + leap else if m = 8 then 243 + leap
      else if m = 9 then 273 + leap else if m = 10 then 304 + leap
      else 334 + leap)"

definition MonthFromTime :: "int \<Rightarrow> int" where
  "MonthFromTime t =
     (let d = DayWithinYear t; leap = InLeapYear t
      in if d < 31 then 0 else if d < 59 + leap then 1 else if d < 90 + leap then 2
         else if d < 120 + leap then 3 else if d < 151 + leap then 4
         else if d < 181 + leap then 5 else if d < 212 + leap then 6
         else if d < 243 + leap then 7 else if d < 273 + leap then 8
         else if d < 304 + leap then 9 else if d < 334 + leap then 10
         else 11)"

definition DateFromTime :: "int \<Rightarrow> int" where
  "DateFromTime t = DayWithinYear t - monthStart (InLeapYear t) (MonthFromTime t) + 1"

text \<open>
  \<open>MakeDay\<close>: the day number of the first day of the month, plus \<open>date - 1\<close>. The date
  may lie outside the month (\<open>setDate(-3)\<close>); the result is then a day of another month.
\<close>

definition MakeDay :: "int \<Rightarrow> int \<Rightarrow> int \<Rightarrow> int" where
  "MakeDay year month date =
     (let ym = year + month div 12; mn = month mod 12
      in DayFromYear ym + monthStart (if DaysInYear ym = 366 then 1 else 0) mn + date - 1)"

definition MakeDate :: "int \<Rightarrow> int \<Rightarrow> int" where
  "MakeDate day time = day * msPerDay + time"

definition TimeClip :: "int \<Rightarrow> int option" where
  "TimeClip time = (if \<bar>time\<bar> > 8640000000000000 then None else Some time)"

text \<open>The character of a decimal digit (\<open>k < 10\<close>).\<close>

definition digitChar :: "nat \<Rightarrow> char" where
  "digitChar k = ''0123456789'' ! k"

text \<open>The decimal digits of \<open>n\<close>, padded with zeros to the width \<open>w\<close>.\<close>

definition padded :: "nat \<Rightarrow> int \<Rightarrow> string" where
  "padded w n = map (\<lambda>k. digitChar (nat n div 10 ^ k mod 10)) (rev [0..<w])"

text \<open>The date part of \<open>toISOString\<close>: four digits for the years 0 to 9999, a sign
  and six digits otherwise.\<close>

definition isoYear :: "int \<Rightarrow> string" where
  "isoYear y =
     (if 0 \<le> y \<and> y \<le> 9999 then padded 4 y
      else (if y < 0 then ''-'' else ''+'') @ padded 6 \<bar>y\<bar>)"

definition toISOString :: "int \<Rightarrow> string" where
  "toISOString t =
     isoYear (YearFromTime t)
       @ ''-'' @ padded 2 (MonthFromTime t + 1)
       @ ''-'' @ padded 2 (DateFromTime t)
       @ ''T'' @ padded 2 (t div 3600000 mod 24)
       @ '':'' @ padded 2 (t div 60000 mod 60)
       @ '':'' @ padded 2 (t div 1000 mod 60)
       @ ''.'' @ padded 3 (t mod 1000)
       @ ''Z''"

section \<open>The environment of the program\<close>

text \<open>
  A query parameter as the HTTP framework's parser hands it over: a string, an array
  (a parameter given several times or with brackets) or a nested object.
\<close>

datatype qval = QStr string | QArr "qval list" | QObj "(string \<times> qval) list"

text \<open>\<open>Array.prototype.join\<close> with a comma.\<close>

fun joinComma :: "string list \<Rightarrow> string" where
  "joinComma [] = []"
| "joinComma [s] = s"
| "joinComma (s # t # ts) = s @ '','' @ joinComma (t # ts)"

text \<open>
  \<open>String(v)\<close> for a query parameter. A nested object is taken to have no key
  \<open>toString\<close> or \<open>valueOf\<close> of its own, so that its conversion is the inherited one.
\<close>

fun ToString :: "qval \<Rightarrow> string" where
  "ToString (QStr s) = s"
| "ToString (QArr vs) = joinComma (map ToString vs)"
| "ToString (QObj kvs) = ''[object Object]''"

text \<open>The truthiness of a query parameter: only the empty string is falsy.\<close>

fun ToBoolean :: "qval \<Rightarrow> bool" where
  "ToBoolean (QStr s) = (s \<noteq> [])"
| "ToBoolean (QArr vs) = True"
| "ToBoolean (QObj kvs) = True"

text \<open>
  A date range. Its two fields hold the query parameters as they came when the caller
  gave both, and the strings of the default window otherwise.
\<close>

record DateRange =
  startDate :: qval
  endDate :: qval

text \<open>The request to the report client; \<open>Named n\<close> is the object \<open>{ name: n }\<close>.\<close>

datatype Named = Named string

record RunReportRequest =
  property :: string
  dateRanges :: "DateRange list"
  dimensions :: "Named list"
  metrics :: "Named list"

text \<open>
  What the program takes from outside: the configured property, the report client
  (whose call either rejects with an error or resolves to a response), the language's
  conversion of strings to numbers, the two readings of the clock that
  \<open>defaultRange\<close> makes (\<open>new Date()\<close> for \<open>end\<close>, then for \<open>start\<close>), and the host's
  time zone: \<open>LocalTZA t isUTC\<close> is the offset of local time from UTC in
  milliseconds, at the UTC time \<open>t\<close> when \<open>isUTC\<close> and at the local time \<open>t\<close> otherwise.
\<close>

record Env =
  PROPERTY_ID :: string
  analyticsDataClient :: "RunReportRequest \<Rightarrow> failure + RunReportResponse"
  stringToNumber :: "string \<Rightarrow> jsnum"
  clockEnd :: int
  clockStart :: int
  LocalTZA :: "int \<Rightarrow> bool \<Rightarrow> int"

definition LocalTime :: "Env \<Rightarrow> int \<Rightarrow> int" where
  "LocalTime env t = t + LocalTZA env t True"

definition UTC :: "Env \<Rightarrow> int \<Rightarrow> int" where
  "UTC env t = t - LocalTZA env t False"

definition getDate :: "Env \<Rightarrow> int option \<Rightarrow> int option" where
  "getDate env d = (case d of None \<Rightarrow> None | Some t \<Rightarrow> Some (DateFromTime (LocalTime env t)))"

text \<open>\<open>d.setDate(dt)\<close>; \<open>None\<close> for \<open>dt\<close> is a \<open>NaN\<close> argument.\<close>

definition setDate :: "Env \<Rightarrow> int option \<Rightarrow> int option \<Rightarrow> int option" where
  "setDate env d dt =
     (case d of
        None \<Rightarrow> None
      | Some t0 \<Rightarrow>
          (case dt of
             None \<Rightarrow> None
           | Some n \<Rightarrow>
               let t = LocalTime env t0;
                   newDate = MakeDate (MakeDay (YearFromTime t) (MonthFromTime t) n)
                               (TimeWithinDay t)
               in TimeClip (UTC env newDate)))"

section \<open>toISO and defaultRange\<close>

text \<open>\<open>toISOString\<close> throws a RangeError on an invalid date.\<close>

definition toISO :: "int option \<Rightarrow> failure + string" where
  "toISO date =
     (case date of
        None \<Rightarrow> Inl (Failure ''Invalid time value'')
      | Some t \<Rightarrow> Inr (take 10 (toISOString t)))"

text \<open>A thrown error ends the computation: the rest is skipped.\<close>

definition andThen :: "failure + 'a \<Rightarrow> ('a \<Rightarrow> failure + 'b) \<Rightarrow> failure + 'b" where
  "andThen r f = (case r of Inl e \<Rightarrow> Inl e | Inr v \<Rightarrow> f v)"

text \<open>\<open>days\<close> is an integer; \<open>None\<close> is a call without the argument.\<close>

definition defaultRange :: "Env \<Rightarrow> int option \<Rightarrow> failure + DateRange" where
  "defaultRange env days =
     (let n = (case days of None \<Rightarrow> 28 | Some k \<Rightarrow> k);
          end = Some (clockEnd env);
          start = Some (clockStart env);
          start = setDate env start (map_option (\<lambda>g. g - (n - 1)) (getDate env end))
      in andThen (toISO start) (\<lambda>s.
         andThen (toISO end) (\<lambda>e.
         Inr \<lparr>startDate = QStr s, endDate = QStr e\<rparr>)))"

section \<open>runReport\<close>

record Meta =
  rowCount :: jsval
  samplesReadCount :: jsval
  samplingMetadatas :: "SamplingMetadata list"

record ReportResult =
  meta :: Meta
  rows :: "FlatRow list"

text \<open>\<open>v ?? 0\<close>\<close>

definition orZero :: "jsval option \<Rightarrow> jsval" where
  "orZero v = (case v of None \<Rightarrow> JNum (Fin 0) | Some JNull \<Rightarrow> JNum (Fin 0) | Some x \<Rightarrow> x)"

text \<open>The request that \<open>runReport\<close> hands to the client.\<close>

definition reportRequest ::
  "Env \<Rightarrow> DateRange list \<Rightarrow> string list option \<Rightarrow> string list option \<Rightarrow> RunReportRequest" where
  "reportRequest env dateRanges dimensions metrics =
     \<lparr>property = ''properties/'' @ PROPERTY_ID env,
      dateRanges = dateRanges,
      dimensions = map Named (orEmpty dimensions),
      metrics = map Named (orEmpty metrics)\<rparr>"
  for dateRanges dimensions metrics

definition runReport ::
  "Env \<Rightarrow> DateRange list \<Rightarrow> string list option \<Rightarrow> string list option
     \<Rightarrow> failure + ReportResult" where
  "runReport env dateRanges dimensions metrics =
     andThen (analyticsDataClient env (reportRequest env dateRanges dimensions metrics))
       (\<lambda>res. Inr
         \<lparr>meta =
            \<lparr>rowCount = orZero (RunReportResponse.rowCount res),
             samplesReadCount =
               orZero (case metadata res of
                         None \<Rightarrow> None
                       | Some m \<Rightarrow> ResponseMetaData.samplesReadCount m),
             samplingMetadatas =
               orEmpty (case metadata res of
                          None \<Rightarrow> None
                        | Some m \<Rightarrow> ResponseMetaData.samplingMetadatas m)\<rparr>,
          rows = rowsToObjects (stringToNumber env) (RunReportResponse.rows res)
                   (dimensionHeaders res) (metricHeaders res)\<rparr>)"
  for dateRanges dimensions metrics

section \<open>Array operations of the routes\<close>

text \<open>
  The subtraction of two Numbers. The sign of the difference of two finite doubles is
  the sign of the difference of their values, and the difference is zero only when they
  are equal, so the rational difference stands for it.
\<close>

fun subtract :: "jsnum \<Rightarrow> jsnum \<Rightarrow> jsnum" where
  "subtract NaN y = NaN"
| "subtract x NaN = NaN"
| "subtract PosInf PosInf = NaN"
| "subtract NegInf NegInf = NaN"
| "subtract PosInf y = PosInf"
| "subtract NegInf y = NegInf"
| "subtract (Fin a) PosInf = NegInf"
| "subtract (Fin a) NegInf = PosInf"
| "subtract (Fin a) (Fin b) = Fin (a - b)"

text \<open>
  \<open>Array.prototype.sort\<close> with a comparator. A \<open>NaN\<close> from the comparator counts as 0;
  a positive result puts the second argument first. The sort is stable; it is modelled
  as a stable insertion sort, which is the result of every stable sort when the
  comparator is a consistent ordering.
\<close>

definition SortCompare :: "('a \<Rightarrow> 'a \<Rightarrow> jsnum) \<Rightarrow> 'a \<Rightarrow> 'a \<Rightarrow> jsnum" where
  "SortCompare comparefn x y = (case comparefn x y of NaN \<Rightarrow> Fin 0 | v \<Rightarrow> v)"

fun isPositive :: "jsnum \<Rightarrow> bool" where
  "isPositive PosInf = True"
| "isPositive (Fin q) = (0 < q)"
| "isPositive v = False"

fun insertSorted :: "('a \<Rightarrow> 'a \<Rightarrow> jsnum) \<Rightarrow> 'a \<Rightarrow> 'a list \<Rightarrow> 'a list" where
  "insertSorted comparefn x [] = [x]"
| "insertSorted comparefn x (y # ys) =
     (if isPositive (SortCompare comparefn x y) then y # insertSorted comparefn x ys
      else x # y # ys)"

definition sort_by :: "('a \<Rightarrow> 'a \<Rightarrow> jsnum) \<Rightarrow> 'a list \<Rightarrow> 'a list" where
  "sort_by comparefn xs = foldr (insertSorted comparefn) xs []"

text \<open>
  \<open>xs.slice(0, end)\<close>: the end is truncated to an integer (\<open>NaN\<close> to 0), a negative end
  counts from the end of the array, and the result is clamped to the array.
\<close>

definition truncateRat :: "rat \<Rightarrow> int" where
  "truncateRat q = (if 0 \<le> q then \<lfloor>q\<rfloor> else \<lceil>q\<rceil>)"

definition slice0 :: "'a list \<Rightarrow> jsnum \<Rightarrow> 'a list" where
  "slice0 xs end =
     (let len = int (length xs);
          final = (case end of
                     NaN \<Rightarrow> 0
                   | NegInf \<Rightarrow> 0
                   | PosInf \<Rightarrow> len
                   | Fin q \<Rightarrow>
                       let relativeEnd = truncateRat q
                       in if relativeEnd < 0 then max (len + relativeEnd) 0
                          else min relativeEnd len)
      in take (nat final) xs)"

section \<open>The routes\<close>

record Kpis =
  totalUsers :: jsval
  activeUsers :: jsval
  newUsers :: jsval
  sessions :: jsval
  screenPageViews :: jsval
  engagementRate :: jsval
  averageSessionDuration :: jsval
  bounceRate :: jsval

text \<open>
  The object handed to \<open>res.json\<close>: the overview (range, kpis, meta), the time series
  (range, metric, rows), the row lists of the other three routes (range, rows), and
  the error body (error, details). The JSON text that the framework writes from it is
  not modelled. A response without \<open>res.status\<close> has status 200.
\<close>

datatype Body =
    OverviewBody DateRange Kpis Meta
  | TimeseriesBody DateRange qval "FlatRow list"
  | RowsBody DateRange "FlatRow list"
  | ErrorBody string string

record Response =
  status :: nat
  body :: Body

text \<open>
  \<open>try { ... res.json(b) } catch (e) { res.status(500).json({ error: tag, details:
  e.message }) }\<close>
\<close>

definition respond :: "string \<Rightarrow> failure + Body \<Rightarrow> Response" where
  "respond tag r =
     (case r of
        Inl e \<Rightarrow> \<lparr>status = 500, body = ErrorBody tag (message e)\<rparr>
      | Inr b \<Rightarrow> \<lparr>status = 200, body = b\<rparr>)"

text \<open>
  \<open>start && end ? { startDate: start, endDate: end } : defaultRange(28)\<close>, the
  expression with which each of the five routes builds its range.
\<close>

definition rangeOf :: "Env \<Rightarrow> (string \<rightharpoonup> qval) \<Rightarrow> failure + DateRange" where
  "rangeOf env query =
     (case (query ''start'', query ''end'') of
        (Some start, Some end) \<Rightarrow>
          if ToBoolean start \<and> ToBoolean end
          then Inr \<lparr>startDate = start, endDate = end\<rparr>
          else defaultRange env (Some 28)
      | _ \<Rightarrow> defaultRange env (Some 28))"

definition get_overview :: "Env \<Rightarrow> (string \<rightharpoonup> qval) \<Rightarrow> Response" where
  "get_overview env query =
     respond ''overview_failed''
       (andThen (rangeOf env query) (\<lambda>rg.
        andThen (runReport env [rg] None
                   (Some [''totalUsers'', ''activeUsers'', ''newUsers'', ''sessions'',
                          ''screenPageViews'', ''engagementRate'',
                          ''averageSessionDuration'', ''bounceRate''])) (\<lambda>data.
        let row = (case ReportResult.rows data of [] \<Rightarrow> Map.empty | r # _ \<Rightarrow> r)
        in Inr (OverviewBody rg
             \<lparr>totalUsers = orZero (row ''totalUsers''),
              activeUsers = orZero (row ''activeUsers''),
              newUsers = orZero (row ''newUsers''),
              sessions = orZero (row ''sessions''),
              screenPageViews = orZero (row ''screenPageViews''),
              engagementRate = orZero (row ''engagementRate''),
              averageSessionDuration = orZero (row ''averageSessionDuration''),
              bounceRate = orZero (row ''bounceRate'')\<rparr>
             (meta data)))))"

definition get_timeseries :: "Env \<Rightarrow> (string \<rightharpoonup> qval) \<Rightarrow> Response" where
  "get_timeseries env query =
     respond ''timeseries_failed''
       (let metric = (case query ''metric'' of None \<Rightarrow> QStr ''activeUsers'' | Some m \<Rightarrow> m)
        in andThen (rangeOf env query) (\<lambda>rg.
           andThen (runReport env [rg] (Some [''date'']) (Some [ToString metric])) (\<lambda>data.
           Inr (TimeseriesBody rg metric (ReportResult.rows data)))))"

text \<open>\<open>(a, b) => b[key] - a[key]\<close>, the comparator of the two sorting routes.\<close>

definition descendingBy :: "(string \<Rightarrow> jsnum) \<Rightarrow> string \<Rightarrow> FlatRow \<Rightarrow> FlatRow \<Rightarrow> jsnum" where
  "descendingBy s2n key a b = subtract (Number s2n (b key)) (Number s2n (a key))"

text \<open>\<open>Number(limit)\<close>, where \<open>limit\<close> is the query parameter or the default 10.\<close>

definition limitNumber :: "(string \<Rightarrow> jsnum) \<Rightarrow> qval option \<Rightarrow> jsnum" where
  "limitNumber s2n limit = (case limit of None \<Rightarrow> Fin 10 | Some v \<Rightarrow> s2n (ToString v))"

definition get_top_pages :: "Env \<Rightarrow> (string \<rightharpoonup> qval) \<Rightarrow> Response" where
  "get_top_pages env query =
     respond ''top_pages_failed''
       (andThen (rangeOf env query) (\<lambda>rg.
        andThen (runReport env [rg] (Some [''pageTitle'', ''pagePath''])
                   (Some [''screenPageViews'', ''activeUsers''])) (\<lambda>data.
        let rows = slice0
                     (sort_by (descendingBy (stringToNumber env) ''screenPageViews'')
                        (ReportResult.rows data))
                     (limitNumber (stringToNumber env) (query ''limit''))
        in Inr (RowsBody rg rows))))"

definition get_sources :: "Env \<Rightarrow> (string \<rightharpoonup> qval) \<Rightarrow> Response" where
  "get_sources env query =
     respond ''sources_failed''
       (andThen (rangeOf env query) (\<lambda>rg.
        andThen (runReport env [rg] (Some [''sessionDefaultChannelGroup''])
                   (Some [''sessions'', ''activeUsers'', ''engagedSessions''])) (\<lambda>data.
        let rows = slice0
                     (sort_by (descendingBy (stringToNumber env) ''sessions'')
                        (ReportResult.rows data))
                     (limitNumber (stringToNumber env) (query ''limit''))
        in Inr (RowsBody rg rows))))"

definition get_devices :: "Env \<Rightarrow> (string \<rightharpoonup> qval) \<Rightarrow> Response" where
  "get_devices env query =
     respond ''devices_failed''
       (andThen (rangeOf env query) (\<lambda>rg.
        andThen (runReport env [rg] (Some [''deviceCategory''])
                   (Some [''activeUsers'', ''sessions''])) (\<lambda>data.
        Inr (RowsBody rg (ReportResult.rows data)))))"

section \<open>Descending order of Numbers\<close>


section \<open>Reading a response\<close>

text \<open>The \<open>range\<close> and \<open>rows\<close> properties of a response body, when it has them.\<close>

fun bodyRange :: "Body \<Rightarrow> DateRange option" where
  "bodyRange (OverviewBody rg k m) = Some rg"
| "bodyRange (TimeseriesBody rg metric rs) = Some rg"
| "bodyRange (RowsBody rg rs) = Some rg"
| "bodyRange (ErrorBody tag details) = None"

fun bodyRows :: "Body \<Rightarrow> FlatRow list option" where
  "bodyRows (OverviewBody rg k m) = None"
| "bodyRows (TimeseriesBody rg metric rs) = Some rs"
| "bodyRows (RowsBody rg rs) = Some rs"
| "bodyRows (ErrorBody tag details) = None"

section \<open>Example environments\<close>

text \<open>
  Concrete environments for the evaluations below: a host in UTC whose clock reads
  2023-11-14T22:13:20Z, with a report client that rejects every request or resolves
  every request to a given response.
\<close>

definition exampleEnv :: "(RunReportRequest \<Rightarrow> failure + RunReportResponse) \<Rightarrow> Env" where
  "exampleEnv client =
     \<lparr>PROPERTY_ID = ''123456789'',
      analyticsDataClient = client,
      stringToNumber = StringToNumber,
      clockEnd = 1700000000000,
      clockStart = 1700000000000,
      LocalTZA = (\<lambda>t isUTC. 0)\<rparr>"

definition rejecting :: "string \<Rightarrow> RunReportRequest \<Rightarrow> failure + RunReportResponse" where
  "rejecting msg req = Inl (Failure msg)"

definition resolving :: "RunReportResponse \<Rightarrow> RunReportRequest \<Rightarrow> failure + RunReportResponse" where
  "resolving res req = Inr res"

definition cells :: "string list \<Rightarrow> ValueCell option list option" where
  "cells vs = Some (map (\<lambda>v. Some (ValueCell (Some v))) vs)"

definition emptyResponse :: RunReportResponse where
  "emptyResponse =
     \<lparr>RunReportResponse.rows = Some [],
      dimensionHeaders = Some [],
      metricHeaders = Some (map Header [''totalUsers'', ''activeUsers'', ''newUsers'',
        ''sessions'', ''screenPageViews'', ''engagementRate'', ''averageSessionDuration'',
        ''bounceRate'']),
      RunReportResponse.rowCount = None,
      metadata = None\<rparr>"

definition devicesResponse :: RunReportResponse where
  "devicesResponse =
     \<lparr>RunReportResponse.rows = Some [\<lparr>dimensionValues = cells [''mobile''], metricValues = cells [''7'', ''9'']\<rparr>,
                   \<lparr>dimensionValues = cells [''desktop''], metricValues = cells [''30'', ''41'']\<rparr>],
      dimensionHeaders = Some [Header ''deviceCategory''],
      metricHeaders = Some [Header ''activeUsers'', Header ''sessions''],
      RunReportResponse.rowCount = Some (JNum (Fin 2)),
      metadata = None\<rparr>"


section \<open>Calendar dates of day numbers\<close>

text \<open>
  The first ten characters of \<open>toISOString\<close> at any instant of the UTC day with number
  \<open>d\<close>: for the years 0 to 9999 the date \<open>YYYY-MM-DD\<close> of that day.
\<close>

definition dateOfDay :: "int \<Rightarrow> string" where
  "dateOfDay d = take 10 (toISOString (d * msPerDay))"

text \<open>
  A host in the time zone Europe/Berlin during 2024 (UTC+1, and UTC+2 from
  2024-03-31T01:00Z to 2024-10-27T01:00Z), whose clock reads 2024-04-04T23:30:00Z,
  which is 01:30 on April 5 in local time.
\<close>

definition berlinTZA :: "int \<Rightarrow> bool \<Rightarrow> int" where
  "berlinTZA t isUTC =
     (if isUTC then (if 1711846800000 \<le> t \<and> t < 1729990800000 then 7200000 else 3600000)
      else (if 1711854000000 \<le> t \<and> t < 1729998000000 then 7200000 else 3600000))"

definition berlinEnv :: Env where
  "berlinEnv =
     \<lparr>PROPERTY_ID = ''123456789'',
      analyticsDataClient = rejecting ''unused'',
      stringToNumber = StringToNumber,
      clockEnd = 1712273400000,
      clockStart = 1712273400000,
      LocalTZA = berlinTZA\<rparr>"

section \<open>Properties of the row flattener\<close>

lemma assign_other: "k \<noteq> key \<Longrightarrow> props (assign obj key v) k = props obj k"
  by (simp add: assign_def)

lemma assign_ordinary: "key \<noteq> ''__proto__'' \<Longrightarrow> props (assign obj key v) key = Some v"
  by (simp add: assign_def)

lemma assign_same: "props (assign obj key v) key = Some v \<or> props (assign obj key v) key = None"
  by (auto simp: assign_def)

lemma dom_assign:
  "dom (props (assign obj key v)) - {''__proto__''}
     = insert key (dom (props obj)) - {''__proto__''}"
  by (auto simp: assign_def)

lemma assignEach_other:
  "k \<notin> name ` set hs \<Longrightarrow> props (assignEach f i hs obj) k = props obj k"
  by (induction hs arbitrary: i obj) (auto simp: assign_other)

lemma assignEach_last:
  "j < length hs \<Longrightarrow> name (hs ! j) \<notin> name ` set (drop (Suc j) hs)
     \<Longrightarrow> name (hs ! j) \<noteq> ''__proto__''
     \<Longrightarrow> props (assignEach f i hs obj) (name (hs ! j)) = Some (f (i + j))"
proof (induction hs arbitrary: i j obj)
  case Nil
  then show ?case by simp
next
  case (Cons h hs)
  show ?case
  proof (cases j)
    case 0
    with Cons.prems show ?thesis by (simp add: assignEach_other assign_ordinary)
  next
    case (Suc j')
    with Cons.prems Cons.IH [of j' "Suc i"] show ?thesis by simp
  qed
qed

lemma dom_assignEach:
  "dom (props (assignEach f i hs obj)) - {''__proto__''}
     = (dom (props obj) \<union> name ` set hs) - {''__proto__''}"
proof (induction hs arbitrary: i obj)
  case Nil
  then show ?case by simp
next
  case (Cons h hs)
  have "dom (props (assignEach f (Suc i) hs (assign obj (name h) (f i)))) - {''__proto__''}
      = (dom (props (assign obj (name h) (f i))) - {''__proto__''} \<union> name ` set hs)
          - {''__proto__''}"
    using Cons.IH [of "Suc i" "assign obj (name h) (f i)"] by blast
  then show ?case by (auto simp: dom_assign)
qed

text \<open>
  Where every assigned value is a number, a name that is assigned ends with a number or
  with no property at all, whatever the object held before.
\<close>

lemma assignEach_numbers:
  "\<forall>i. \<exists>n. f i = JNum n \<Longrightarrow> k \<in> name ` set hs \<Longrightarrow>
     props (assignEach f i hs obj) k = None
       \<or> (\<exists>n. props (assignEach f i hs obj) k = Some (JNum n))"
proof (induction hs arbitrary: i obj)
  case Nil
  then show ?case by simp
next
  case (Cons h hs)
  show ?case
  proof (cases "k \<in> name ` set hs")
    case True
    with Cons.IH [of "Suc i" "assign obj (name h) (f i)"] Cons.prems(1) show ?thesis by simp
  next
    case False
    with Cons.prems(2) have k: "name h = k" by auto
    from False have "props (assignEach f (Suc i) hs (assign obj k (f i))) k
        = props (assign obj k (f i)) k"
      by (rule assignEach_other)
    moreover from Cons.prems(1) obtain n where "f i = JNum n" by blast
    ultimately show ?thesis using assign_same [of obj k "f i"] k by auto
  qed
qed

lemma rowToObject_dimension:
  assumes "i < length dh"
    and "name (dh ! i) \<notin> name ` set (drop (Suc i) dh)"
    and "name (dh ! i) \<notin> name ` set mh"
    and "name (dh ! i) \<noteq> ''__proto__''"
  shows "rowToObject s2n dh mh row (name (dh ! i)) = Some (dimValue row i)"
  using assms assignEach_last [of i dh "dimValue row" 0 emptyObject]
  by (simp add: rowToObject_def assignEach_other)

lemma rowToObject_metric:
  assumes "j < length mh"
    and "name (mh ! j) \<notin> name ` set (drop (Suc j) mh)"
    and "name (mh ! j) \<noteq> ''__proto__''"
  shows "rowToObject s2n dh mh row (name (mh ! j)) = Some (metValue s2n row j)"
  using assms assignEach_last [of j mh "metValue s2n row" 0]
  by (simp add: rowToObject_def)

lemma dom_rowToObject:
  "dom (rowToObject s2n dh mh row) - {''__proto__''}
     = (name ` set dh \<union> name ` set mh) - {''__proto__''}"
proof -
  have "dom (rowToObject s2n dh mh row) - {''__proto__''}
      = (dom (props (assignEach (dimValue row) 0 dh emptyObject)) - {''__proto__''}
           \<union> name ` set mh) - {''__proto__''}"
    using dom_assignEach [of "metValue s2n row" 0 mh
        "assignEach (dimValue row) 0 dh emptyObject"]
    by (auto simp: rowToObject_def)
  also have "\<dots> = (name ` set dh \<union> name ` set mh) - {''__proto__''}"
    using dom_assignEach [of "dimValue row" 0 dh emptyObject]
    by (auto simp: emptyObject_def)
  finally show ?thesis .
qed

lemma rowToObject_never_dimension:
  assumes "k \<in> name ` set mh"
  shows "rowToObject s2n dh mh row k \<noteq> Some (dimValue row i)"
proof -
  have "\<forall>i. \<exists>n. metValue s2n row i = JNum n" by (simp add: metValue_def)
  from assignEach_numbers [OF this assms, of 0 "assignEach (dimValue row) 0 dh emptyObject"]
  have "rowToObject s2n dh mh row k = None \<or> (\<exists>n. rowToObject s2n dh mh row k = Some (JNum n))"
    by (simp add: rowToObject_def)
  then show ?thesis
    by (auto simp: dimValue_def split: option.splits)
qed

lemma last_occurrence:
  "k \<in> name ` set hs \<Longrightarrow>
     \<exists>j<length hs. name (hs ! j) = k \<and> k \<notin> name ` set (drop (Suc j) hs)"
proof (induction hs)
  case Nil
  then show ?case by simp
next
  case (Cons h hs)
  show ?case
  proof (cases "k \<in> name ` set hs")
    case True
    with Cons.IH obtain j where "j < length hs" "name (hs ! j) = k"
      "k \<notin> name ` set (drop (Suc j) hs)" by blast
    then have "Suc j < length (h # hs) \<and> name ((h # hs) ! Suc j) = k
        \<and> k \<notin> name ` set (drop (Suc (Suc j)) (h # hs))" by simp
    then show ?thesis by blast
  next
    case False
    with Cons.prems have "name h = k" by auto
    with False have "0 < length (h # hs) \<and> name ((h # hs) ! 0) = k
        \<and> k \<notin> name ` set (drop (Suc 0) (h # hs))" by simp
    then show ?thesis by blast
  qed
qed

lemmas StringToNumber_eval =
  StringToNumber_def trimString_def isStrWhiteSpaceChar_def nonDecimalRadix_def
  StrUnsignedDecimalLiteral_def isDecimalDigit_def digitIn_def exponentPart_def
  integerLiteral_def scale10_def negate_def

lemmas flatten_eval =
  rowsToObjects_def rowToObject_def orEmpty_def dimValue_def metValue_def
  opt_index_def opt_value_def assign_def emptyObject_def

text \<open>
  Claim C1 as stated fails. When a dimension header and a metric header carry the same
  name, the record holds the metric's number under that name and the dimension's value
  is gone. And a header named \<open>__proto__\<close> gives the record no property at all:
  the assignment of a string to that name is ignored.
\<close>

theorem rowsToObjects_collision_counterexample:
  "(rowsToObjects StringToNumber
      (Some [\<lparr>dimensionValues = Some [Some (ValueCell (Some ''x''))],
              metricValues = Some [Some (ValueCell (Some ''1''))]\<rparr>])
      (Some [Header ''a'']) (Some [Header ''a'']) ! 0) ''a''
     = Some (JNum (Fin 1))
   \<and> (rowsToObjects StringToNumber
      (Some [\<lparr>dimensionValues = Some [Some (ValueCell (Some ''x''))],
              metricValues = Some [Some (ValueCell (Some ''1''))]\<rparr>])
      (Some [Header ''a'']) (Some [Header ''a'']) ! 0) ''a''
     \<noteq> Some (JStr ''x'')
   \<and> (rowsToObjects StringToNumber
      (Some [\<lparr>dimensionValues = Some [Some (ValueCell (Some ''x''))],
              metricValues = Some [Some (ValueCell (Some ''1''))]\<rparr>])
      (Some [Header ''__proto__'']) (Some [Header ''m'']) ! 0) ''__proto__''
     = None"
  by (simp add: flatten_eval StringToNumber_eval)

text \<open>
  Claim C1, amended: the output has one record per input row, in order (none for an
  empty or missing row list). In the record of row \<open>r\<close>, the name of the dimension header
  at index \<open>i\<close> maps to the row's dimension value at index \<open>i\<close>, or to null when that
  value is absent, provided the name is not \<open>__proto__\<close> and is not the name of a later
  dimension header or of a metric header; the name of the metric header at index \<open>j\<close>
  maps to the row's metric value at index \<open>j\<close> converted to a number, or to 0 when that
  value is absent, provided the name is not \<open>__proto__\<close> and is not the name of a later
  metric header.
\<close>

theorem rowsToObjects_fields:
  "length (rowsToObjects s2n (Some rs) (Some dh) (Some mh)) = length rs
   \<and> rowsToObjects s2n (Some []) dhs mhs = []
   \<and> rowsToObjects s2n None dhs mhs = []
   \<and> (\<forall>r i. r < length rs \<and> i < length dh
         \<and> name (dh ! i) \<noteq> ''__proto__''
         \<and> name (dh ! i) \<notin> name ` set (drop (Suc i) dh)
         \<and> name (dh ! i) \<notin> name ` set mh \<longrightarrow>
       (rowsToObjects s2n (Some rs) (Some dh) (Some mh) ! r) (name (dh ! i))
         = Some (case opt_value (opt_index (dimensionValues (rs ! r)) i) of
                   None \<Rightarrow> JNull | Some v \<Rightarrow> JStr v))
   \<and> (\<forall>r j. r < length rs \<and> j < length mh
         \<and> name (mh ! j) \<noteq> ''__proto__''
         \<and> name (mh ! j) \<notin> name ` set (drop (Suc j) mh) \<longrightarrow>
       (rowsToObjects s2n (Some rs) (Some dh) (Some mh) ! r) (name (mh ! j))
         = Some (JNum (case opt_value (opt_index (metricValues (rs ! r)) j) of
                   None \<Rightarrow> Fin 0 | Some v \<Rightarrow> s2n v)))"
proof -
  have len: "length (rowsToObjects s2n (Some rs) (Some dh) (Some mh)) = length rs"
    by (simp add: rowsToObjects_def orEmpty_def)
  have empty: "rowsToObjects s2n (Some []) dhs mhs = []" "rowsToObjects s2n None dhs mhs = []"
    by (simp_all add: rowsToObjects_def orEmpty_def)
  have dims: "(rowsToObjects s2n (Some rs) (Some dh) (Some mh) ! r) (name (dh ! i))
         = Some (case opt_value (opt_index (dimensionValues (rs ! r)) i) of
                   None \<Rightarrow> JNull | Some v \<Rightarrow> JStr v)"
    if "r < length rs" "i < length dh" "name (dh ! i) \<noteq> ''__proto__''"
      "name (dh ! i) \<notin> name ` set (drop (Suc i) dh)" "name (dh ! i) \<notin> name ` set mh"
    for r i
    using that
      rowToObject_dimension [where i = i and dh = dh and mh = mh and ?s2n = s2n
        and row = "rs ! r"]
    by (simp add: rowsToObjects_def orEmpty_def dimValue_def)
  have mets: "(rowsToObjects s2n (Some rs) (Some dh) (Some mh) ! r) (name (mh ! j))
         = Some (JNum (case opt_value (opt_index (metricValues (rs ! r)) j) of
                   None \<Rightarrow> Fin 0 | Some v \<Rightarrow> s2n v))"
    if "r < length rs" "j < length mh" "name (mh ! j) \<noteq> ''__proto__''"
      "name (mh ! j) \<notin> name ` set (drop (Suc j) mh)"
    for r j
    using that
      rowToObject_metric [where j = j and mh = mh and dh = dh and ?s2n = s2n
        and row = "rs ! r"]
    by (simp add: rowsToObjects_def orEmpty_def metValue_def split: option.splits)
  from len empty dims mets show ?thesis by blast
qed

theorem rowsToObjects_fields_witness:
  "(rowsToObjects StringToNumber
      (Some [\<lparr>dimensionValues = Some [Some (ValueCell (Some ''/home''))],
              metricValues = Some [Some (ValueCell (Some ''12'')), None]\<rparr>])
      (Some [Header ''pagePath''])
      (Some [Header ''screenPageViews'', Header ''activeUsers'']) ! 0) ''pagePath''
     = Some (JStr ''/home'')
   \<and> (rowsToObjects StringToNumber
      (Some [\<lparr>dimensionValues = Some [Some (ValueCell (Some ''/home''))],
              metricValues = Some [Some (ValueCell (Some ''12'')), None]\<rparr>])
      (Some [Header ''pagePath''])
      (Some [Header ''screenPageViews'', Header ''activeUsers'']) ! 0) ''screenPageViews''
     = Some (JNum (Fin 12))
   \<and> (rowsToObjects StringToNumber
      (Some [\<lparr>dimensionValues = Some [Some (ValueCell (Some ''/home''))],
              metricValues = Some [Some (ValueCell (Some ''12'')), None]\<rparr>])
      (Some [Header ''pagePath''])
      (Some [Header ''screenPageViews'', Header ''activeUsers'']) ! 0) ''activeUsers''
     = Some (JNum (Fin 0))"
proof -
  let ?rws = "[\<lparr>dimensionValues = Some [Some (ValueCell (Some ''/home''))],
              metricValues = Some [Some (ValueCell (Some ''12'')), None]\<rparr>]"
  let ?dh = "[Header ''pagePath'']"
  let ?mh = "[Header ''screenPageViews'', Header ''activeUsers'']"
  note t = rowsToObjects_fields [of StringToNumber ?rws ?dh ?mh]
  from t have d: "\<And>r i. r < length ?rws \<and> i < length ?dh
         \<and> name (?dh ! i) \<noteq> ''__proto__''
         \<and> name (?dh ! i) \<notin> name ` set (drop (Suc i) ?dh)
         \<and> name (?dh ! i) \<notin> name ` set ?mh \<Longrightarrow>
       (rowsToObjects StringToNumber (Some ?rws) (Some ?dh) (Some ?mh) ! r) (name (?dh ! i))
         = Some (case opt_value (opt_index (dimensionValues (?rws ! r)) i) of
                   None \<Rightarrow> JNull | Some v \<Rightarrow> JStr v)"
    by blast
  from t have m: "\<And>r j. r < length ?rws \<and> j < length ?mh
         \<and> name (?mh ! j) \<noteq> ''__proto__''
         \<and> name (?mh ! j) \<notin> name ` set (drop (Suc j) ?mh) \<Longrightarrow>
       (rowsToObjects StringToNumber (Some ?rws) (Some ?dh) (Some ?mh) ! r) (name (?mh ! j))
         = Some (JNum (case opt_value (opt_index (metricValues (?rws ! r)) j) of
                   None \<Rightarrow> Fin 0 | Some v \<Rightarrow> StringToNumber v))"
    by blast
  have "StringToNumber ''12'' = Fin 12" by (simp add: StringToNumber_eval)
  with d [of 0 0] m [of 0 0] m [of 0 1] show ?thesis
    by (simp add: opt_index_def opt_value_def)
qed

text \<open>
  Claim C7 as stated fails. When two dimension headers carry the same name, the value of
  the earlier one does not appear under that name; the later one's does. And under the
  name \<open>__proto__\<close> no dimension value appears: the record gets no such key.
\<close>

theorem rowToObject_duplicate_header_counterexample:
  "rowToObject StringToNumber [Header ''d'', Header ''d''] []
      \<lparr>dimensionValues = Some [Some (ValueCell (Some ''x'')), Some (ValueCell (Some ''y''))],
       metricValues = Some []\<rparr> ''d''
     = Some (JStr ''y'')
   \<and> dimValue
      \<lparr>dimensionValues = Some [Some (ValueCell (Some ''x'')), Some (ValueCell (Some ''y''))],
       metricValues = Some []\<rparr> 0
     = JStr ''x''
   \<and> dom (rowToObject StringToNumber [Header ''__proto__''] [Header ''m'']
      \<lparr>dimensionValues = Some [Some (ValueCell (Some ''x''))],
       metricValues = Some [Some (ValueCell (Some ''1''))]\<rparr>)
     = {''m''}"
  by (auto simp: flatten_eval StringToNumber_eval split: if_splits)

text \<open>
  Claim C7, amended: for every row and every dimension header list, the name of the
  dimension header at index \<open>i\<close> is the key under which the row's dimension value at index
  \<open>i\<close> appears in the record, whatever the row holds, provided that name is not
  \<open>__proto__\<close> and is not the name of a later dimension header or of a metric header.
  Apart from \<open>__proto__\<close>, the keys of the record are the header names, whatever the row
  holds.
\<close>

theorem rowToObject_header_order:
  "(i < length dh \<and> name (dh ! i) \<noteq> ''__proto__''
      \<and> name (dh ! i) \<notin> name ` set (drop (Suc i) dh)
      \<and> name (dh ! i) \<notin> name ` set mh
     \<longrightarrow> rowToObject s2n dh mh row (name (dh ! i)) = Some (dimValue row i))
   \<and> dom (rowToObject s2n dh mh row) - {''__proto__''}
       = (name ` set dh \<union> name ` set mh) - {''__proto__''}"
  using rowToObject_dimension [where i = i and dh = dh and mh = mh and ?s2n = s2n and row = row]
    dom_rowToObject [of s2n dh mh row]
  by blast

theorem rowToObject_header_order_witness:
  "rowToObject StringToNumber [Header ''pageTitle'', Header ''pagePath'']
       [Header ''screenPageViews'']
       \<lparr>dimensionValues = Some [Some (ValueCell (Some ''Home'')), Some (ValueCell (Some ''/''))],
        metricValues = Some [Some (ValueCell (Some ''3''))]\<rparr> ''pageTitle''
     = Some (JStr ''Home'')
   \<and> rowToObject StringToNumber [Header ''pageTitle'', Header ''pagePath'']
       [Header ''screenPageViews'']
       \<lparr>dimensionValues = Some [Some (ValueCell (Some ''Home'')), Some (ValueCell (Some ''/''))],
        metricValues = Some [Some (ValueCell (Some ''3''))]\<rparr> ''pagePath''
     = Some (JStr ''/'')
   \<and> dom (rowToObject StringToNumber [Header ''pageTitle'', Header ''pagePath'']
       [Header ''screenPageViews'']
       \<lparr>dimensionValues = Some [Some (ValueCell (Some ''Home'')), Some (ValueCell (Some ''/''))],
        metricValues = Some [Some (ValueCell (Some ''3''))]\<rparr>) - {''__proto__''}
     = {''pageTitle'', ''pagePath'', ''screenPageViews''}"
proof -
  let ?dh = "[Header ''pageTitle'', Header ''pagePath'']"
  let ?mh = "[Header ''screenPageViews'']"
  let ?row = "\<lparr>dimensionValues = Some [Some (ValueCell (Some ''Home'')),
        Some (ValueCell (Some ''/''))], metricValues = Some [Some (ValueCell (Some ''3''))]\<rparr>"
  from rowToObject_header_order [of 0 ?dh ?mh StringToNumber ?row]
  have 0: "rowToObject StringToNumber ?dh ?mh ?row ''pageTitle'' = Some (dimValue ?row 0)"
    and d: "dom (rowToObject StringToNumber ?dh ?mh ?row) - {''__proto__''}
      = (name ` set ?dh \<union> name ` set ?mh) - {''__proto__''}"
    by simp_all
  from rowToObject_header_order [of 1 ?dh ?mh StringToNumber ?row]
  have 1: "rowToObject StringToNumber ?dh ?mh ?row ''pagePath'' = Some (dimValue ?row 1)"
    by simp
  have v: "dimValue ?row 0 = JStr ''Home''" "dimValue ?row 1 = JStr ''/''"
    by (simp_all add: dimValue_def opt_index_def opt_value_def)
  have n: "(name ` set ?dh \<union> name ` set ?mh) - {''__proto__''}
      = {''pageTitle'', ''pagePath'', ''screenPageViews''}"
    by auto
  from 0 1 d show ?thesis unfolding v n by simp
qed

text \<open>
  Claim C9 as stated fails for the name \<open>__proto__\<close>: carried by a dimension header
  and by a metric header, it ends with no property in the record, so the record does not
  hold the metric's number under it. Both assignments, of the string and of the number,
  are ignored.
\<close>

theorem rowToObject_proto_counterexample:
  "rowToObject StringToNumber [Header ''__proto__''] [Header ''__proto__'']
      \<lparr>dimensionValues = Some [Some (ValueCell (Some ''organic''))],
       metricValues = Some [Some (ValueCell (Some ''5''))]\<rparr> ''__proto__''
     = None
   \<and> metValue StringToNumber
      \<lparr>dimensionValues = Some [Some (ValueCell (Some ''organic''))],
       metricValues = Some [Some (ValueCell (Some ''5''))]\<rparr> 0
     = JNum (Fin 5)"
  by (simp add: flatten_eval StringToNumber_eval)

text \<open>
  Claim C9, amended: metric fields are written after dimension fields into the same
  record, so for a name other than \<open>__proto__\<close> carried both by a dimension header and
  by a metric header the record holds a number, the metric value at the last metric
  header of that name; and for every name carried by both, the record never holds a
  dimension value under it.
\<close>

theorem rowToObject_metric_overwrites:
  "k \<in> name ` set dh \<and> k \<in> name ` set mh \<longrightarrow>
     (k \<noteq> ''__proto__'' \<longrightarrow>
        (\<exists>j<length mh. name (mh ! j) = k \<and> k \<notin> name ` set (drop (Suc j) mh)
           \<and> rowToObject s2n dh mh row k = Some (metValue s2n row j))
        \<and> (\<exists>n. rowToObject s2n dh mh row k = Some (JNum n)))
     \<and> (\<forall>i. rowToObject s2n dh mh row k \<noteq> Some (dimValue row i))"
proof
  assume a: "k \<in> name ` set dh \<and> k \<in> name ` set mh"
  have pos: "(\<exists>j<length mh. name (mh ! j) = k \<and> k \<notin> name ` set (drop (Suc j) mh)
           \<and> rowToObject s2n dh mh row k = Some (metValue s2n row j))
        \<and> (\<exists>n. rowToObject s2n dh mh row k = Some (JNum n))"
    if p: "k \<noteq> ''__proto__''"
  proof -
    from a obtain j where j: "j < length mh" "name (mh ! j) = k"
      "k \<notin> name ` set (drop (Suc j) mh)"
      using last_occurrence [of k mh] by blast
    with p have v: "rowToObject s2n dh mh row k = Some (metValue s2n row j)"
      using rowToObject_metric [where j = j and mh = mh and dh = dh and ?s2n = s2n
          and row = row]
      by simp
    then have "\<exists>n. rowToObject s2n dh mh row k = Some (JNum n)"
      by (simp add: metValue_def)
    with j v show ?thesis by blast
  qed
  from a have "\<forall>i. rowToObject s2n dh mh row k \<noteq> Some (dimValue row i)"
    using rowToObject_never_dimension [of k mh s2n dh row] by blast
  with pos show "(k \<noteq> ''__proto__'' \<longrightarrow>
        (\<exists>j<length mh. name (mh ! j) = k \<and> k \<notin> name ` set (drop (Suc j) mh)
           \<and> rowToObject s2n dh mh row k = Some (metValue s2n row j))
        \<and> (\<exists>n. rowToObject s2n dh mh row k = Some (JNum n)))
     \<and> (\<forall>i. rowToObject s2n dh mh row k \<noteq> Some (dimValue row i))"
    by blast
qed

theorem rowToObject_metric_overwrites_witness:
  "''sessions'' \<in> name ` set [Header ''sessions'']
   \<and> ''sessions'' \<in> name ` set [Header ''sessions'']
   \<and> ''sessions'' \<noteq> ''__proto__''
   \<and> rowToObject StringToNumber [Header ''sessions''] [Header ''sessions'']
       \<lparr>dimensionValues = Some [Some (ValueCell (Some ''organic''))],
        metricValues = Some [Some (ValueCell (Some ''5''))]\<rparr> ''sessions''
     = Some (JNum (Fin 5))"
proof -
  let ?row = "\<lparr>dimensionValues = Some [Some (ValueCell (Some ''organic''))],
        metricValues = Some [Some (ValueCell (Some ''5''))]\<rparr>"
  have h: "''sessions'' \<in> name ` set [Header ''sessions'']" by simp
  have p: "''sessions'' \<noteq> ''__proto__''" by simp
  from rowToObject_metric_overwrites [of "''sessions''" "[Header ''sessions'']"
      "[Header ''sessions'']" StringToNumber ?row] h p
  obtain j where "j < length [Header ''sessions'']"
    "rowToObject StringToNumber [Header ''sessions''] [Header ''sessions''] ?row ''sessions''
       = Some (metValue StringToNumber ?row j)"
    by blast
  then have "rowToObject StringToNumber [Header ''sessions''] [Header ''sessions''] ?row
      ''sessions'' = Some (metValue StringToNumber ?row 0)" by simp
  then show ?thesis
    by (simp add: metValue_def opt_index_def opt_value_def StringToNumber_eval)
qed

section \<open>Properties of the routes\<close>

lemmas calendar_eval =
  msPerDay_def Day_def TimeWithinDay_def DaysInYear_def DayFromYear_def YearFromDay_def
  YearFromTime_def InLeapYear_def DayWithinYear_def monthStart_def MonthFromTime_def
  DateFromTime_def MakeDay_def MakeDate_def TimeClip_def

lemmas iso_eval =
  calendar_eval digitChar_def padded_def isoYear_def toISOString_def toISO_def

lemma exampleEnv_defaultRange:
  "defaultRange (exampleEnv c) (Some 28)
     = Inr \<lparr>startDate = QStr ''2023-10-18'', endDate = QStr ''2023-11-14''\<rparr>"
  unfolding defaultRange_def setDate_def getDate_def Let_def LocalTime_def UTC_def
    exampleEnv_def
  by (simp add: iso_eval andThen_def upt_rec)

lemma exampleEnv_select:
  "analyticsDataClient (exampleEnv c) = c"
  "stringToNumber (exampleEnv c) = StringToNumber"
  by (simp_all add: exampleEnv_def)

lemma rangeOf_empty_query:
  "rangeOf env Map.empty = defaultRange env (Some 28)"
  by (simp add: rangeOf_def)

lemma runReport_rejects:
  "analyticsDataClient env (reportRequest env rgs ds ms) = Inl e
     \<Longrightarrow> runReport env rgs ds ms = Inl e"
  by (simp add: runReport_def andThen_def)

lemma runReport_resolves:
  "analyticsDataClient env (reportRequest env rgs ds ms) = Inr res
     \<Longrightarrow> \<exists>m. runReport env rgs ds ms
           = Inr \<lparr>meta = m,
                  rows = rowsToObjects (stringToNumber env) (RunReportResponse.rows res)
                           (dimensionHeaders res) (metricHeaders res)\<rparr>"
  by (simp add: runReport_def andThen_def)

text \<open>
  Claim C5: at each of the five routes, when the range has been built and the call of
  the report client rejects with an error, the response has status 500 and its body
  holds the route's tag as \<open>error\<close> and the error's message as \<open>details\<close>.
\<close>

theorem upstream_failure_responses:
  "rangeOf env query = Inr rg \<longrightarrow>
   (analyticsDataClient env (reportRequest env [rg] None
        (Some [''totalUsers'', ''activeUsers'', ''newUsers'', ''sessions'',
               ''screenPageViews'', ''engagementRate'', ''averageSessionDuration'',
               ''bounceRate''])) = Inl e
      \<longrightarrow> get_overview env query
            = \<lparr>status = 500, body = ErrorBody ''overview_failed'' (message e)\<rparr>)
   \<and> (analyticsDataClient env (reportRequest env [rg] (Some [''date''])
        (Some [ToString (case query ''metric'' of
                           None \<Rightarrow> QStr ''activeUsers'' | Some m \<Rightarrow> m)])) = Inl e
      \<longrightarrow> get_timeseries env query
            = \<lparr>status = 500, body = ErrorBody ''timeseries_failed'' (message e)\<rparr>)
   \<and> (analyticsDataClient env (reportRequest env [rg] (Some [''pageTitle'', ''pagePath''])
        (Some [''screenPageViews'', ''activeUsers''])) = Inl e
      \<longrightarrow> get_top_pages env query
            = \<lparr>status = 500, body = ErrorBody ''top_pages_failed'' (message e)\<rparr>)
   \<and> (analyticsDataClient env (reportRequest env [rg] (Some [''sessionDefaultChannelGroup''])
        (Some [''sessions'', ''activeUsers'', ''engagedSessions''])) = Inl e
      \<longrightarrow> get_sources env query
            = \<lparr>status = 500, body = ErrorBody ''sources_failed'' (message e)\<rparr>)
   \<and> (analyticsDataClient env (reportRequest env [rg] (Some [''deviceCategory''])
        (Some [''activeUsers'', ''sessions''])) = Inl e
      \<longrightarrow> get_devices env query
            = \<lparr>status = 500, body = ErrorBody ''devices_failed'' (message e)\<rparr>)"
proof
  assume rg: "rangeOf env query = Inr rg"
  have 1: "analyticsDataClient env (reportRequest env [rg] None
        (Some [''totalUsers'', ''activeUsers'', ''newUsers'', ''sessions'',
               ''screenPageViews'', ''engagementRate'', ''averageSessionDuration'',
               ''bounceRate''])) = Inl e
      \<longrightarrow> get_overview env query
            = \<lparr>status = 500, body = ErrorBody ''overview_failed'' (message e)\<rparr>"
    using rg by (simp add: get_overview_def runReport_rejects andThen_def respond_def)
  have 2: "analyticsDataClient env (reportRequest env [rg] (Some [''date''])
        (Some [ToString (case query ''metric'' of
                           None \<Rightarrow> QStr ''activeUsers'' | Some m \<Rightarrow> m)])) = Inl e
      \<longrightarrow> get_timeseries env query
            = \<lparr>status = 500, body = ErrorBody ''timeseries_failed'' (message e)\<rparr>"
    using rg by (simp add: get_timeseries_def runReport_rejects andThen_def respond_def)
  have 3: "analyticsDataClient env (reportRequest env [rg] (Some [''pageTitle'', ''pagePath''])
        (Some [''screenPageViews'', ''activeUsers''])) = Inl e
      \<longrightarrow> get_top_pages env query
            = \<lparr>status = 500, body = ErrorBody ''top_pages_failed'' (message e)\<rparr>"
    using rg by (simp add: get_top_pages_def runReport_rejects andThen_def respond_def)
  have 4: "analyticsDataClient env (reportRequest env [rg] (Some [''sessionDefaultChannelGroup''])
        (Some [''sessions'', ''activeUsers'', ''engagedSessions''])) = Inl e
      \<longrightarrow> get_sources env query
            = \<lparr>status = 500, body = ErrorBody ''sources_failed'' (message e)\<rparr>"
    using rg by (simp add: get_sources_def runReport_rejects andThen_def respond_def)
  have 5: "analyticsDataClient env (reportRequest env [rg] (Some [''deviceCategory''])
        (Some [''activeUsers'', ''sessions''])) = Inl e
      \<longrightarrow> get_devices env query
            = \<lparr>status = 500, body = ErrorBody ''devices_failed'' (message e)\<rparr>"
    using rg by (simp add: get_devices_def runReport_rejects andThen_def respond_def)
  from 1 2 3 4 5 show "(analyticsDataClient env (reportRequest env [rg] None
        (Some [''totalUsers'', ''activeUsers'', ''newUsers'', ''sessions'',
               ''screenPageViews'', ''engagementRate'', ''averageSessionDuration'',
               ''bounceRate''])) = Inl e
      \<longrightarrow> get_overview env query
            = \<lparr>status = 500, body = ErrorBody ''overview_failed'' (message e)\<rparr>)
   \<and> (analyticsDataClient env (reportRequest env [rg] (Some [''date''])
        (Some [ToString (case query ''metric'' of
                           None \<Rightarrow> QStr ''activeUsers'' | Some m \<Rightarrow> m)])) = Inl e
      \<longrightarrow> get_timeseries env query
            = \<lparr>status = 500, body = ErrorBody ''timeseries_failed'' (message e)\<rparr>)
   \<and> (analyticsDataClient env (reportRequest env [rg] (Some [''pageTitle'', ''pagePath''])
        (Some [''screenPageViews'', ''activeUsers''])) = Inl e
      \<longrightarrow> get_top_pages env query
            = \<lparr>status = 500, body = ErrorBody ''top_pages_failed'' (message e)\<rparr>)
   \<and> (analyticsDataClient env (reportRequest env [rg] (Some [''sessionDefaultChannelGroup''])
        (Some [''sessions'', ''activeUsers'', ''engagedSessions''])) = Inl e
      \<longrightarrow> get_sources env query
            = \<lparr>status = 500, body = ErrorBody ''sources_failed'' (message e)\<rparr>)
   \<and> (analyticsDataClient env (reportRequest env [rg] (Some [''deviceCategory''])
        (Some [''activeUsers'', ''sessions''])) = Inl e
      \<longrightarrow> get_devices env query
            = \<lparr>status = 500, body = ErrorBody ''devices_failed'' (message e)\<rparr>)"
    by blast
qed

theorem upstream_failure_responses_witness:
  "get_overview (exampleEnv (rejecting ''quota exceeded'')) Map.empty
     = \<lparr>status = 500, body = ErrorBody ''overview_failed'' ''quota exceeded''\<rparr>
   \<and> get_timeseries (exampleEnv (rejecting ''quota exceeded'')) Map.empty
     = \<lparr>status = 500, body = ErrorBody ''timeseries_failed'' ''quota exceeded''\<rparr>
   \<and> get_top_pages (exampleEnv (rejecting ''quota exceeded'')) Map.empty
     = \<lparr>status = 500, body = ErrorBody ''top_pages_failed'' ''quota exceeded''\<rparr>
   \<and> get_sources (exampleEnv (rejecting ''quota exceeded'')) Map.empty
     = \<lparr>status = 500, body = ErrorBody ''sources_failed'' ''quota exceeded''\<rparr>
   \<and> get_devices (exampleEnv (rejecting ''quota exceeded'')) Map.empty
     = \<lparr>status = 500, body = ErrorBody ''devices_failed'' ''quota exceeded''\<rparr>"
proof -
  let ?env = "exampleEnv (rejecting ''quota exceeded'')"
  have rg: "rangeOf ?env Map.empty
      = Inr \<lparr>startDate = QStr ''2023-10-18'', endDate = QStr ''2023-11-14''\<rparr>"
    by (simp add: rangeOf_empty_query exampleEnv_defaultRange)
  have c: "analyticsDataClient ?env req = Inl (Failure ''quota exceeded'')" for req
    by (simp add: exampleEnv_select rejecting_def)
  from upstream_failure_responses [of ?env Map.empty
      "\<lparr>startDate = QStr ''2023-10-18'', endDate = QStr ''2023-11-14''\<rparr>"
      "Failure ''quota exceeded''"] rg c
  show ?thesis by simp
qed

text \<open>
  Claim C4: when the range has been built and the report client resolves, the overview
  responds with status 200. With zero rows in the result every one of the eight KPI
  fields is 0; with a row, every KPI field that the flattened first row lacks is 0.
\<close>

theorem overview_kpis_default_to_zero:
  "rangeOf env query = Inr rg
   \<and> analyticsDataClient env (reportRequest env [rg] None
        (Some [''totalUsers'', ''activeUsers'', ''newUsers'', ''sessions'',
               ''screenPageViews'', ''engagementRate'', ''averageSessionDuration'',
               ''bounceRate''])) = Inr res
   \<longrightarrow>
   (\<exists>k m. get_overview env query = \<lparr>status = 200, body = OverviewBody rg k m\<rparr>
      \<and> (orEmpty (RunReportResponse.rows res) = [] \<longrightarrow>
           k = \<lparr>totalUsers = JNum (Fin 0), activeUsers = JNum (Fin 0),
                newUsers = JNum (Fin 0), sessions = JNum (Fin 0),
                screenPageViews = JNum (Fin 0), engagementRate = JNum (Fin 0),
                averageSessionDuration = JNum (Fin 0), bounceRate = JNum (Fin 0)\<rparr>)
      \<and> (\<forall>row rest.
            rowsToObjects (stringToNumber env) (RunReportResponse.rows res)
              (dimensionHeaders res) (metricHeaders res) = row # rest \<longrightarrow>
            (row ''totalUsers'' = None \<longrightarrow> totalUsers k = JNum (Fin 0))
            \<and> (row ''activeUsers'' = None \<longrightarrow> activeUsers k = JNum (Fin 0))
            \<and> (row ''newUsers'' = None \<longrightarrow> newUsers k = JNum (Fin 0))
            \<and> (row ''sessions'' = None \<longrightarrow> sessions k = JNum (Fin 0))
            \<and> (row ''screenPageViews'' = None \<longrightarrow> screenPageViews k = JNum (Fin 0))
            \<and> (row ''engagementRate'' = None \<longrightarrow> engagementRate k = JNum (Fin 0))
            \<and> (row ''averageSessionDuration'' = None
                 \<longrightarrow> averageSessionDuration k = JNum (Fin 0))
            \<and> (row ''bounceRate'' = None \<longrightarrow> bounceRate k = JNum (Fin 0))))"
proof
  assume a: "rangeOf env query = Inr rg
   \<and> analyticsDataClient env (reportRequest env [rg] None
        (Some [''totalUsers'', ''activeUsers'', ''newUsers'', ''sessions'',
               ''screenPageViews'', ''engagementRate'', ''averageSessionDuration'',
               ''bounceRate''])) = Inr res"
  let ?flat = "rowsToObjects (stringToNumber env) (RunReportResponse.rows res)
      (dimensionHeaders res) (metricHeaders res)"
  let ?row = "case ?flat of [] \<Rightarrow> Map.empty | r # _ \<Rightarrow> r"
  let ?k = "\<lparr>totalUsers = orZero (?row ''totalUsers''),
      activeUsers = orZero (?row ''activeUsers''),
      newUsers = orZero (?row ''newUsers''),
      sessions = orZero (?row ''sessions''),
      screenPageViews = orZero (?row ''screenPageViews''),
      engagementRate = orZero (?row ''engagementRate''),
      averageSessionDuration = orZero (?row ''averageSessionDuration''),
      bounceRate = orZero (?row ''bounceRate'')\<rparr>"
  from a obtain m where run: "runReport env [rg] None
        (Some [''totalUsers'', ''activeUsers'', ''newUsers'', ''sessions'',
               ''screenPageViews'', ''engagementRate'', ''averageSessionDuration'',
               ''bounceRate'']) = Inr \<lparr>meta = m, rows = ?flat\<rparr>"
    using runReport_resolves by blast
  from a run have resp: "get_overview env query = \<lparr>status = 200, body = OverviewBody rg ?k m\<rparr>"
    by (simp add: get_overview_def andThen_def respond_def Let_def)
  have zero: "orEmpty (RunReportResponse.rows res) = [] \<longrightarrow>
           ?k = \<lparr>totalUsers = JNum (Fin 0), activeUsers = JNum (Fin 0),
                newUsers = JNum (Fin 0), sessions = JNum (Fin 0),
                screenPageViews = JNum (Fin 0), engagementRate = JNum (Fin 0),
                averageSessionDuration = JNum (Fin 0), bounceRate = JNum (Fin 0)\<rparr>"
    by (simp add: rowsToObjects_def orZero_def)
  have missing: "\<forall>row rest. ?flat = row # rest \<longrightarrow>
            (row ''totalUsers'' = None \<longrightarrow> totalUsers ?k = JNum (Fin 0))
            \<and> (row ''activeUsers'' = None \<longrightarrow> activeUsers ?k = JNum (Fin 0))
            \<and> (row ''newUsers'' = None \<longrightarrow> newUsers ?k = JNum (Fin 0))
            \<and> (row ''sessions'' = None \<longrightarrow> sessions ?k = JNum (Fin 0))
            \<and> (row ''screenPageViews'' = None \<longrightarrow> screenPageViews ?k = JNum (Fin 0))
            \<and> (row ''engagementRate'' = None \<longrightarrow> engagementRate ?k = JNum (Fin 0))
            \<and> (row ''averageSessionDuration'' = None
                 \<longrightarrow> averageSessionDuration ?k = JNum (Fin 0))
            \<and> (row ''bounceRate'' = None \<longrightarrow> bounceRate ?k = JNum (Fin 0))"
    by (simp add: orZero_def)
  from resp zero missing
  show "\<exists>k m. get_overview env query = \<lparr>status = 200, body = OverviewBody rg k m\<rparr>
      \<and> (orEmpty (RunReportResponse.rows res) = [] \<longrightarrow>
           k = \<lparr>totalUsers = JNum (Fin 0), activeUsers = JNum (Fin 0),
                newUsers = JNum (Fin 0), sessions = JNum (Fin 0),
                screenPageViews = JNum (Fin 0), engagementRate = JNum (Fin 0),
                averageSessionDuration = JNum (Fin 0), bounceRate = JNum (Fin 0)\<rparr>)
      \<and> (\<forall>row rest. ?flat = row # rest \<longrightarrow>
            (row ''totalUsers'' = None \<longrightarrow> totalUsers k = JNum (Fin 0))
            \<and> (row ''activeUsers'' = None \<longrightarrow> activeUsers k = JNum (Fin 0))
            \<and> (row ''newUsers'' = None \<longrightarrow> newUsers k = JNum (Fin 0))
            \<and> (row ''sessions'' = None \<longrightarrow> sessions k = JNum (Fin 0))
            \<and> (row ''screenPageViews'' = None \<longrightarrow> screenPageViews k = JNum (Fin 0))
            \<and> (row ''engagementRate'' = None \<longrightarrow> engagementRate k = JNum (Fin 0))
            \<and> (row ''averageSessionDuration'' = None
                 \<longrightarrow> averageSessionDuration k = JNum (Fin 0))
            \<and> (row ''bounceRate'' = None \<longrightarrow> bounceRate k = JNum (Fin 0)))"
    by blast
qed

theorem overview_kpis_default_to_zero_witness:
  "\<exists>m. get_overview (exampleEnv (resolving emptyResponse)) Map.empty
     = \<lparr>status = 200,
        body = OverviewBody
          \<lparr>startDate = QStr ''2023-10-18'', endDate = QStr ''2023-11-14''\<rparr>
          \<lparr>totalUsers = JNum (Fin 0), activeUsers = JNum (Fin 0),
           newUsers = JNum (Fin 0), sessions = JNum (Fin 0),
           screenPageViews = JNum (Fin 0), engagementRate = JNum (Fin 0),
           averageSessionDuration = JNum (Fin 0), bounceRate = JNum (Fin 0)\<rparr>
          m\<rparr>"
proof -
  let ?env = "exampleEnv (resolving emptyResponse)"
  let ?rg = "\<lparr>startDate = QStr ''2023-10-18'', endDate = QStr ''2023-11-14''\<rparr>"
  have rg: "rangeOf ?env Map.empty = Inr ?rg"
    by (simp add: rangeOf_empty_query exampleEnv_defaultRange)
  have c: "analyticsDataClient ?env req = Inr emptyResponse" for req
    by (simp add: exampleEnv_select resolving_def)
  have e: "orEmpty (RunReportResponse.rows emptyResponse) = []"
    by (simp add: emptyResponse_def orEmpty_def)
  from overview_kpis_default_to_zero [of ?env Map.empty ?rg emptyResponse] rg c e
  show ?thesis by blast
qed

text \<open>
  Claim C8: when the range has been built and the report client resolves, the devices
  route responds with the flattened rows of the whole result, one per upstream row and in
  the upstream order, without sorting or truncation.
\<close>

theorem devices_returns_all_rows:
  "rangeOf env query = Inr rg
   \<and> analyticsDataClient env (reportRequest env [rg] (Some [''deviceCategory''])
        (Some [''activeUsers'', ''sessions''])) = Inr res
   \<longrightarrow>
   (\<exists>out. get_devices env query = \<lparr>status = 200, body = RowsBody rg out\<rparr>
      \<and> out = rowsToObjects (stringToNumber env) (RunReportResponse.rows res)
                (dimensionHeaders res) (metricHeaders res)
      \<and> length out = length (orEmpty (RunReportResponse.rows res))
      \<and> (\<forall>i<length out.
            out ! i = rowToObject (stringToNumber env) (orEmpty (dimensionHeaders res))
                        (orEmpty (metricHeaders res))
                        (orEmpty (RunReportResponse.rows res) ! i)))"
proof
  assume a: "rangeOf env query = Inr rg
   \<and> analyticsDataClient env (reportRequest env [rg] (Some [''deviceCategory''])
        (Some [''activeUsers'', ''sessions''])) = Inr res"
  let ?flat = "rowsToObjects (stringToNumber env) (RunReportResponse.rows res)
      (dimensionHeaders res) (metricHeaders res)"
  from a obtain m where run: "runReport env [rg] (Some [''deviceCategory''])
        (Some [''activeUsers'', ''sessions'']) = Inr \<lparr>meta = m, rows = ?flat\<rparr>"
    using runReport_resolves by blast
  from a run have resp: "get_devices env query = \<lparr>status = 200, body = RowsBody rg ?flat\<rparr>"
    by (simp add: get_devices_def andThen_def respond_def)
  have len: "length ?flat = length (orEmpty (RunReportResponse.rows res))"
    by (simp add: rowsToObjects_def)
  have nth: "\<forall>i<length ?flat.
      ?flat ! i = rowToObject (stringToNumber env) (orEmpty (dimensionHeaders res))
                    (orEmpty (metricHeaders res)) (orEmpty (RunReportResponse.rows res) ! i)"
    by (simp add: rowsToObjects_def)
  from resp len nth
  show "\<exists>out. get_devices env query = \<lparr>status = 200, body = RowsBody rg out\<rparr>
      \<and> out = ?flat
      \<and> length out = length (orEmpty (RunReportResponse.rows res))
      \<and> (\<forall>i<length out.
            out ! i = rowToObject (stringToNumber env) (orEmpty (dimensionHeaders res))
                        (orEmpty (metricHeaders res))
                        (orEmpty (RunReportResponse.rows res) ! i))"
    by blast
qed

theorem devices_returns_all_rows_witness:
  "status (get_devices (exampleEnv (resolving devicesResponse)) Map.empty) = 200
   \<and> map (\<lambda>r. (r ''deviceCategory'', r ''activeUsers'', r ''sessions''))
        (the (bodyRows (body (get_devices (exampleEnv (resolving devicesResponse)) Map.empty))))
     = [(Some (JStr ''mobile''), Some (JNum (Fin 7)), Some (JNum (Fin 9))),
        (Some (JStr ''desktop''), Some (JNum (Fin 30)), Some (JNum (Fin 41)))]"
proof -
  let ?env = "exampleEnv (resolving devicesResponse)"
  let ?rg = "\<lparr>startDate = QStr ''2023-10-18'', endDate = QStr ''2023-11-14''\<rparr>"
  have rg: "rangeOf ?env Map.empty = Inr ?rg"
    by (simp add: rangeOf_empty_query exampleEnv_defaultRange)
  have c: "analyticsDataClient ?env req = Inr devicesResponse" for req
    by (simp add: exampleEnv_select resolving_def)
  from devices_returns_all_rows [of ?env Map.empty ?rg devicesResponse] rg c
  have "get_devices ?env Map.empty
      = \<lparr>status = 200,
         body = RowsBody ?rg (rowsToObjects (stringToNumber ?env)
           (RunReportResponse.rows devicesResponse) (dimensionHeaders devicesResponse)
           (metricHeaders devicesResponse))\<rparr>"
    by blast
  then show ?thesis
    by (simp add: exampleEnv_select devicesResponse_def cells_def flatten_eval
        StringToNumber_eval)
qed

lemma rangeOf_passes_through:
  "query ''start'' = Some s \<Longrightarrow> query ''end'' = Some e \<Longrightarrow> ToBoolean s \<Longrightarrow> ToBoolean e
     \<Longrightarrow> rangeOf env query = Inr \<lparr>startDate = s, endDate = e\<rparr>"
  by (simp add: rangeOf_def)

lemma rangeOf_falls_back:
  "query ''start'' = None \<or> query ''start'' = Some (QStr [])
     \<or> query ''end'' = None \<or> query ''end'' = Some (QStr [])
     \<Longrightarrow> rangeOf env query = defaultRange env (Some 28)"
  by (auto simp: rangeOf_def split: option.splits)

lemma routes_carry_range:
  assumes "rangeOf env query = Inr rg"
  shows "status (get_overview env query) = 200
           \<longrightarrow> bodyRange (body (get_overview env query)) = Some rg"
    and "status (get_timeseries env query) = 200
           \<longrightarrow> bodyRange (body (get_timeseries env query)) = Some rg"
    and "status (get_top_pages env query) = 200
           \<longrightarrow> bodyRange (body (get_top_pages env query)) = Some rg"
    and "status (get_sources env query) = 200
           \<longrightarrow> bodyRange (body (get_sources env query)) = Some rg"
    and "status (get_devices env query) = 200
           \<longrightarrow> bodyRange (body (get_devices env query)) = Some rg"
  using assms
  by (simp_all add: get_overview_def get_timeseries_def get_top_pages_def get_sources_def
      get_devices_def andThen_def respond_def Let_def split: sum.splits)

text \<open>
  Claim C6 as stated fails: an empty string is a parameter that is present, and it is
  not passed through. With \<open>start=\<close> (empty) and \<open>end=2024-01-31\<close> the devices route
  answers with the default window of the example host.
\<close>

theorem range_empty_start_counterexample:
  "rangeOf (exampleEnv (resolving devicesResponse))
      [''start'' \<mapsto> QStr '''', ''end'' \<mapsto> QStr ''2024-01-31'']
     = Inr \<lparr>startDate = QStr ''2023-10-18'', endDate = QStr ''2023-11-14''\<rparr>
   \<and> bodyRange (body (get_devices (exampleEnv (resolving devicesResponse))
      [''start'' \<mapsto> QStr '''', ''end'' \<mapsto> QStr ''2024-01-31'']))
     = Some \<lparr>startDate = QStr ''2023-10-18'', endDate = QStr ''2023-11-14''\<rparr>
   \<and> bodyRange (body (get_devices (exampleEnv (resolving devicesResponse))
      [''start'' \<mapsto> QStr '''', ''end'' \<mapsto> QStr ''2024-01-31'']))
     \<noteq> Some \<lparr>startDate = QStr '''', endDate = QStr ''2024-01-31''\<rparr>"
proof -
  let ?env = "exampleEnv (resolving devicesResponse)"
  let ?q = "[''start'' \<mapsto> QStr '''', ''end'' \<mapsto> QStr ''2024-01-31'']"
  have rg: "rangeOf ?env ?q
      = Inr \<lparr>startDate = QStr ''2023-10-18'', endDate = QStr ''2023-11-14''\<rparr>"
    by (simp add: rangeOf_def exampleEnv_defaultRange)
  have "get_devices ?env ?q
      = \<lparr>status = 200,
         body = RowsBody \<lparr>startDate = QStr ''2023-10-18'', endDate = QStr ''2023-11-14''\<rparr>
           (ReportResult.rows (projr (runReport ?env
              [\<lparr>startDate = QStr ''2023-10-18'', endDate = QStr ''2023-11-14''\<rparr>]
              (Some [''deviceCategory'']) (Some [''activeUsers'', ''sessions'']))))\<rparr>"
    unfolding get_devices_def rg
    by (simp add: andThen_def respond_def runReport_def exampleEnv_select resolving_def)
  with rg show ?thesis by simp
qed

text \<open>
  Claim C6, amended: at every route, if both \<open>start\<close> and \<open>end\<close> are present and neither
  is the empty string, they are passed through unchanged into the date range, with no
  format validation; if either one is absent or the empty string, the range is the
  default 28-day window. Every route that answers with status 200 carries that range
  in its response.
\<close>

theorem range_resolution:
  "(query ''start'' = Some s \<and> query ''end'' = Some e \<and> ToBoolean s \<and> ToBoolean e
      \<longrightarrow> rangeOf env query = Inr \<lparr>startDate = s, endDate = e\<rparr>)
   \<and> (query ''start'' = None \<or> query ''start'' = Some (QStr [])
        \<or> query ''end'' = None \<or> query ''end'' = Some (QStr [])
      \<longrightarrow> rangeOf env query = defaultRange env (Some 28))
   \<and> (rangeOf env query = Inr rg \<longrightarrow>
        (\<forall>route \<in> set [get_overview, get_timeseries, get_top_pages, get_sources, get_devices].
           status (route env query) = 200
             \<longrightarrow> bodyRange (body (route env query)) = Some rg))"
  using rangeOf_passes_through [of query s e env] rangeOf_falls_back [of query env]
    routes_carry_range [of env query rg]
  by simp

theorem range_resolution_witness:
  "bodyRange (body (get_devices (exampleEnv (resolving devicesResponse))
      [''start'' \<mapsto> QStr ''2024-01-01'', ''end'' \<mapsto> QStr ''yesterday'']))
     = Some \<lparr>startDate = QStr ''2024-01-01'', endDate = QStr ''yesterday''\<rparr>
   \<and> rangeOf (exampleEnv (resolving devicesResponse)) [''end'' \<mapsto> QStr ''2024-01-31'']
     = Inr \<lparr>startDate = QStr ''2023-10-18'', endDate = QStr ''2023-11-14''\<rparr>"
proof -
  let ?env = "exampleEnv (resolving devicesResponse)"
  let ?q = "[''start'' \<mapsto> QStr ''2024-01-01'', ''end'' \<mapsto> QStr ''yesterday'']"
  let ?rg = "\<lparr>startDate = QStr ''2024-01-01'', endDate = QStr ''yesterday''\<rparr>"
  note t = range_resolution [of ?q "QStr ''2024-01-01''" "QStr ''yesterday''" ?env ?rg]
  from t have rg: "rangeOf ?env ?q = Inr ?rg" by simp
  have ok: "status (get_devices ?env ?q) = 200"
    unfolding get_devices_def rg
    by (simp add: andThen_def respond_def runReport_def exampleEnv_select resolving_def)
  from t rg ok have 1: "bodyRange (body (get_devices ?env ?q)) = Some ?rg" by simp
  from range_resolution [of "[''end'' \<mapsto> QStr ''2024-01-31'']" "QStr ''2024-01-01''"
      "QStr ''2024-01-31''" ?env ?rg]
  have 2: "rangeOf ?env [''end'' \<mapsto> QStr ''2024-01-31''] = defaultRange ?env (Some 28)"
    by simp
  from 1 2 show ?thesis by (simp add: exampleEnv_defaultRange)
qed





section \<open>Sorting and truncation\<close>















lemma length_slice0_integer:
  "length (slice0 xs (Fin (of_nat n))) = min (length xs) n"
  by (simp add: slice0_def truncateRat_def Let_def min_def)






lemma length_slice0_negative:
  assumes "q \<le> - 1"
  shows "length (slice0 xs (Fin q)) = nat (int (length xs) + \<lceil>q\<rceil>)"
proof -
  from assms have c: "\<lceil>q\<rceil> \<le> - 1" by (simp add: ceiling_le_iff)
  from assms have "truncateRat q = \<lceil>q\<rceil>" by (simp add: truncateRat_def)
  with c assms have "slice0 xs (Fin q) = take (nat (max (int (length xs) + \<lceil>q\<rceil>) 0)) xs"
    by (simp add: slice0_def Let_def)
  then have "length (slice0 xs (Fin q))
      = min (length xs) (nat (max (int (length xs) + \<lceil>q\<rceil>) 0))"
    by simp
  with c show ?thesis by linarith
qed





section \<open>Properties of the calendar and of defaultRange\<close>

lemma div_bounds:
  fixes x k :: int
  assumes "0 < k"
  shows "k * (x div k) \<le> x" and "x < k * (x div k) + k"
proof -
  have e: "x = k * (x div k) + x mod k" by simp
  from assms have "0 \<le> x mod k" "x mod k < k" by simp_all
  with e show "k * (x div k) \<le> x" and "x < k * (x div k) + k" by linarith+
qed

lemma DayFromYear_bounds:
  "146097 * (y - 1970) - 506 \<le> 400 * DayFromYear y"
  "400 * DayFromYear y \<le> 146097 * (y - 1970) + 589"
proof -
  define a b c where "a = (y - 1969) div 4" and "b = (y - 1901) div 100"
    and "c = (y - 1601) div 400"
  have a: "4 * a \<le> y - 1969" "y - 1969 < 4 * a + 4"
    unfolding a_def by (rule div_bounds, simp)+
  have b: "100 * b \<le> y - 1901" "y - 1901 < 100 * b + 100"
    unfolding b_def by (rule div_bounds, simp)+
  have c: "400 * c \<le> y - 1601" "y - 1601 < 400 * c + 400"
    unfolding c_def by (rule div_bounds, simp)+
  have d: "DayFromYear y = 365 * (y - 1970) + a - b + c"
    by (simp add: DayFromYear_def a_def b_def c_def)
  from a b c show "146097 * (y - 1970) - 506 \<le> 400 * DayFromYear y"
    unfolding d by (simp add: algebra_simps)
  from a b c show "400 * DayFromYear y \<le> 146097 * (y - 1970) + 589"
    unfolding d by (simp add: algebra_simps)
qed

text \<open>\<open>YearFromDay d\<close> is a year that contains the day \<open>d\<close>.\<close>

lemma YearFromDay_bounds:
  "DayFromYear (YearFromDay d) \<le> d \<and> d < DayFromYear (YearFromDay d + 1)"
proof -
  define y where "y = 1970 + (400 * d) div 146097"
  define q where "q = (400 * d) div 146097"
  have q: "146097 * q \<le> 400 * d" "400 * d < 146097 * q + 146097"
    unfolding q_def by (rule div_bounds, simp)+
  have y: "y = 1970 + q" by (simp add: y_def q_def)
  define lo hi where "lo = DayFromYear (y - 1)" and "hi = DayFromYear (y + 1 + 1)"
  have "400 * lo \<le> 146097 * (q - 1) + 589"
    using DayFromYear_bounds(2) [of "y - 1"] by (simp add: lo_def y)
  with q have lo: "lo \<le> d" by (simp add: algebra_simps)
  have "146097 * (q + 2) - 506 \<le> 400 * hi"
    using DayFromYear_bounds(1) [of "y + 1 + 1"] by (simp add: hi_def y)
  with q have hi: "d < hi" by (simp add: algebra_simps)
  show ?thesis
    using lo hi unfolding lo_def hi_def
    by (auto simp: YearFromDay_def Let_def y_def [symmetric])
qed

lemma DayFromYear_less_Suc: "DayFromYear y < DayFromYear (y + 1)"
proof -
  have a: "(y - 1969) div 4 \<le> (y + 1 - 1969) div 4" by (rule zdiv_mono1) simp_all
  have c: "(y - 1601) div 400 \<le> (y + 1 - 1601) div 400" by (rule zdiv_mono1) simp_all
  have "100 * ((y + 1 - 1901) div 100) \<le> y + 1 - 1901"
    by (rule div_bounds) simp
  moreover have "y - 1901 < 100 * ((y - 1901) div 100) + 100"
    by (rule div_bounds) simp
  ultimately have b: "(y + 1 - 1901) div 100 \<le> (y - 1901) div 100 + 1" by linarith
  define a0 a1 b0 b1 c0 c1 where "a0 = (y - 1969) div 4" and "a1 = (y + 1 - 1969) div 4"
    and "b0 = (y - 1901) div 100" and "b1 = (y + 1 - 1901) div 100"
    and "c0 = (y - 1601) div 400" and "c1 = (y + 1 - 1601) div 400"
  have "365 * (y - 1970) + a0 - b0 + c0 < 365 * (y + 1 - 1970) + a1 - b1 + c1"
    using a b c unfolding a0_def a1_def b0_def b1_def c0_def c1_def [symmetric]
    by (simp add: algebra_simps)
  then show ?thesis
    by (simp add: DayFromYear_def a0_def a1_def b0_def b1_def c0_def c1_def)
qed

lemma DayFromYear_mono: "y \<le> z \<Longrightarrow> DayFromYear y \<le> DayFromYear z"
proof -
  have "DayFromYear y \<le> DayFromYear (y + int n)" for n
  proof (induction n)
    case 0
    then show ?case by simp
  next
    case (Suc n)
    have "y + int (Suc n) = y + int n + 1" by simp
    with Suc DayFromYear_less_Suc [of "y + int n"] show ?case by (simp only:)
  qed
  from this [of "nat (z - y)"] show "y \<le> z \<Longrightarrow> DayFromYear y \<le> DayFromYear z" by simp
qed

text \<open>\<open>YearFromDay d\<close> is the largest year that starts on or before the day \<open>d\<close>.\<close>

lemma YearFromDay_largest: "DayFromYear y \<le> d \<Longrightarrow> y \<le> YearFromDay d"
proof (rule ccontr)
  assume le: "DayFromYear y \<le> d" and "\<not> y \<le> YearFromDay d"
  then have "YearFromDay d + 1 \<le> y" by simp
  then have "DayFromYear (YearFromDay d + 1) \<le> DayFromYear y" by (rule DayFromYear_mono)
  with le YearFromDay_bounds [of d] show False by linarith
qed

lemma Day_of_day [simp]: "Day (d * msPerDay) = d"
  by (simp add: Day_def msPerDay_def)

lemma Day_shift: "Day (t + k * msPerDay) = Day t + k"
  by (simp add: Day_def msPerDay_def)

lemma MonthFromTime_range: "0 \<le> MonthFromTime t \<and> MonthFromTime t \<le> 11"
  by (simp add: MonthFromTime_def Let_def)

text \<open>
  Setting the day of the month to the current one plus \<open>k\<close> moves the date by \<open>k\<close> days.
\<close>

lemma MakeDay_shift:
  "MakeDay (YearFromTime t) (MonthFromTime t) dt = Day t + (dt - DateFromTime t)"
proof -
  from MonthFromTime_range [of t]
  have m: "MonthFromTime t div 12 = 0" "MonthFromTime t mod 12 = MonthFromTime t"
    by simp_all
  show ?thesis
    by (simp add: MakeDay_def m Let_def DateFromTime_def InLeapYear_def DayWithinYear_def)
qed

lemma DateFromTime_same_day: "Day t' = Day t \<Longrightarrow> DateFromTime t' = DateFromTime t"
  by (simp add: DateFromTime_def DayWithinYear_def InLeapYear_def MonthFromTime_def
      YearFromTime_def)

lemma length_padded [simp]: "length (padded w n) = w"
  by (simp add: padded_def)

lemma length_isoYear: "4 \<le> length (isoYear y)"
  by (simp add: isoYear_def)

lemma toISO_dateOfDay: "take 10 (toISOString t) = dateOfDay (Day t)"
proof -
  let ?date = "\<lambda>u. isoYear (YearFromTime u) @ ''-'' @ padded 2 (MonthFromTime u + 1)
      @ ''-'' @ padded 2 (DateFromTime u)"
  have split: "take 10 (toISOString u) = take 10 (?date u)" for u
  proof -
    define a where "a = ?date u"
    define r where "r = ''T'' @ padded 2 (u div 3600000 mod 24)
         @ '':'' @ padded 2 (u div 60000 mod 60)
         @ '':'' @ padded 2 (u div 1000 mod 60)
         @ ''.'' @ padded 3 (u mod 1000) @ ''Z''"
    have "10 \<le> length a"
      using length_isoYear [of "YearFromTime u"] by (simp add: a_def)
    then have "take 10 (a @ r) = take 10 a" by simp
    moreover have "toISOString u = a @ r" by (simp add: toISOString_def a_def r_def)
    ultimately show ?thesis by (simp only: a_def)
  qed
  have same: "?date (Day t * msPerDay) = ?date t"
    by (simp add: DateFromTime_def DayWithinYear_def InLeapYear_def MonthFromTime_def
        YearFromTime_def)
  show ?thesis
    unfolding dateOfDay_def split [of t] split [of "Day t * msPerDay"] same ..
qed

text \<open>For the years 0 to 9999 the date has the form \<open>YYYY-MM-DD\<close>.\<close>

lemma dateOfDay_form:
  assumes "0 \<le> YearFromDay d" and "YearFromDay d \<le> 9999"
  shows "dateOfDay d = padded 4 (YearFromDay d) @ ''-''
           @ padded 2 (MonthFromTime (d * msPerDay) + 1) @ ''-''
           @ padded 2 (DateFromTime (d * msPerDay))"
proof -
  have "take 10 (padded 4 (YearFromDay d) @ ''-''
           @ padded 2 (MonthFromTime (d * msPerDay) + 1) @ ''-''
           @ padded 2 (DateFromTime (d * msPerDay)) @ r)
        = padded 4 (YearFromDay d) @ ''-''
           @ padded 2 (MonthFromTime (d * msPerDay) + 1) @ ''-''
           @ padded 2 (DateFromTime (d * msPerDay))" for r
    by simp
  with assms show ?thesis
    by (simp add: dateOfDay_def toISOString_def isoYear_def YearFromTime_def)
qed

text \<open>
  On a host whose local time has a constant offset from UTC, with both clock readings
  on one UTC day and on one local day, and the computed start within the range of
  time values, the range ends on the UTC date of the clock reading and starts exactly
  \<open>days - 1\<close> days before it.
\<close>

lemma defaultRange_constant_offset:
  assumes tz: "\<forall>t isUTC. LocalTZA env t isUTC = c"
    and utc_day: "Day (clockStart env) = Day (clockEnd env)"
    and local_day: "Day (clockStart env + c) = Day (clockEnd env + c)"
    and n: "n = (case days of None \<Rightarrow> 28 | Some k \<Rightarrow> k)"
    and valid: "\<bar>clockStart env - (n - 1) * msPerDay\<bar> \<le> 8640000000000000"
  shows "defaultRange env days
           = Inr \<lparr>startDate = QStr (dateOfDay (Day (clockEnd env) - (n - 1))),
                  endDate = QStr (dateOfDay (Day (clockEnd env)))\<rparr>"
proof -
  let ?s = "clockStart env" and ?e = "clockEnd env"
  have lt: "LocalTime env t = t + c" and ut: "UTC env t = t - c" for t
    using tz by (simp_all add: LocalTime_def UTC_def)
  have g: "getDate env (Some ?e) = Some (DateFromTime (?e + c))"
    by (simp add: getDate_def lt)
  have md: "MakeDay (YearFromTime (?s + c)) (MonthFromTime (?s + c))
      (DateFromTime (?e + c) - (n - 1)) = Day (?s + c) - (n - 1)"
    using DateFromTime_same_day [of "?e + c" "?s + c"] local_day
    by (simp add: MakeDay_shift)
  have t: "MakeDate (Day (?s + c) - (n - 1)) (TimeWithinDay (?s + c))
      = ?s + c - (n - 1) * msPerDay"
    by (simp add: MakeDate_def Day_def TimeWithinDay_def algebra_simps)
  have sd: "setDate env (Some ?s) (Some (DateFromTime (?e + c) - (n - 1)))
      = Some (?s - (n - 1) * msPerDay)"
    using valid by (simp add: setDate_def Let_def lt ut md t TimeClip_def)
  have "?s - (n - 1) * msPerDay = ?s + (- (n - 1)) * msPerDay"
    by (simp add: algebra_simps)
  then have "Day (?s - (n - 1) * msPerDay) = Day ?s + (- (n - 1))"
    by (simp only: Day_shift)
  with utc_day have ds: "Day (?s - (n - 1) * msPerDay) = Day ?e - (n - 1)" by simp
  show ?thesis
    unfolding defaultRange_def Let_def g
    by (simp add: n [symmetric] sd toISO_def andThen_def toISO_dateOfDay ds)
qed

lemma defaultRange_default_days: "defaultRange env None = defaultRange env (Some 28)"
  by (simp add: defaultRange_def)

lemma dateOfDay_examples:
  "dateOfDay 19675 = ''2023-11-14''" "dateOfDay 19648 = ''2023-10-18''"
  "dateOfDay 19818 = ''2024-04-05''" "dateOfDay 19790 = ''2024-03-08''"
  "dateOfDay 19791 = ''2024-03-09''"
  unfolding dateOfDay_def by (simp_all add: iso_eval upt_rec)

text \<open>
  Claim C3 (the range ends today and spans exactly \<open>days - 1\<close> calendar days, in
  local date arithmetic) against the code on a host in a time zone with daylight saving
  time. In Berlin at 01:30 local time on 2024-04-05 (23:30 UTC on 2024-04-04) the range
  for 28 days is 2024-03-09 to 2024-04-04: the end date is not the local date
  2024-04-05, and the start is 26 days before the end date, not 27 (27 days before it
  is 2024-03-08). The day of the month is read and set in local time, and the dates are
  formatted by \<open>toISOString\<close>, which is UTC.
\<close>

theorem defaultRange_berlin_evaluation:
  "defaultRange berlinEnv (Some 28)
     = Inr \<lparr>startDate = QStr ''2024-03-09'', endDate = QStr ''2024-04-04''\<rparr>
   \<and> dateOfDay (Day (LocalTime berlinEnv (clockEnd berlinEnv))) = ''2024-04-05''
   \<and> dateOfDay (Day (clockEnd berlinEnv) - (28 - 1)) = ''2024-03-08''"
proof -
  have 1: "defaultRange berlinEnv (Some 28)
     = Inr \<lparr>startDate = QStr ''2024-03-09'', endDate = QStr ''2024-04-04''\<rparr>"
    unfolding defaultRange_def setDate_def getDate_def Let_def LocalTime_def UTC_def
      berlinEnv_def berlinTZA_def
    by (simp add: iso_eval andThen_def upt_rec)
  have 2: "Day (LocalTime berlinEnv (clockEnd berlinEnv)) = 19818"
    by (simp add: LocalTime_def berlinEnv_def berlinTZA_def Day_def msPerDay_def)
  have 3: "Day (clockEnd berlinEnv) - (28 - 1) = 19790"
    by (simp add: berlinEnv_def Day_def msPerDay_def)
  from 1 show ?thesis unfolding 2 3 by (simp add: dateOfDay_examples)
qed

text \<open>
  The same function on the example host, which runs in UTC: the range ends on the date
  of the clock reading and starts 27 days before it.
\<close>

lemma defaultRange_utc_example:
  "defaultRange (exampleEnv client) (Some 28)
     = Inr \<lparr>startDate = QStr (dateOfDay (19675 - 27)), endDate = QStr (dateOfDay 19675)\<rparr>
   \<and> dateOfDay 19675 = ''2023-11-14'' \<and> dateOfDay (19675 - 27) = ''2023-10-18''"
proof -
  let ?env = "exampleEnv client"
  have tz: "\<forall>t isUTC. LocalTZA ?env t isUTC = 0" by (simp add: exampleEnv_def)
  have clock: "clockStart ?env = 1700000000000" "clockEnd ?env = 1700000000000"
    by (simp_all add: exampleEnv_def)
  have day: "Day 1700000000000 = 19675" by (simp add: Day_def msPerDay_def)
  have valid: "\<bar>clockStart ?env - (28 - 1) * msPerDay\<bar> \<le> 8640000000000000"
    by (simp add: clock msPerDay_def)
  from defaultRange_constant_offset [of ?env 0 28 "Some 28"] tz valid
  show ?thesis by (simp add: clock day dateOfDay_examples)
qed


end
